theory Spec2Isabelle
  imports Complex_Main "HOL-Library.Sublist"
begin

section \<open>Python strings\<close>

text \<open>
  A Python \<open>str\<close> is a sequence of Unicode code points, so a string is modelled as a list
  of code points (natural numbers). ASCII literals are written with \<open>ascii\<close>; the Chinese
  literals of the script are spelled out as code points, with a transliteration beside them.
\<close>

type_synonym ustring = "nat list"

definition ascii :: "string \<Rightarrow> ustring" where
  "ascii s = map of_char s"

text \<open>\<open>needle in hay\<close> on strings: contiguous containment.\<close>

fun py_in :: "ustring \<Rightarrow> ustring \<Rightarrow> bool" where
  "py_in needle [] = (needle = [])"
| "py_in needle (c # cs) = (prefix needle (c # cs) \<or> py_in needle cs)"

text \<open>
  \<open>s.replace(old, '')\<close>: every non-overlapping occurrence of \<open>old\<close> is removed, scanning
  from the left. With an empty \<open>old\<close> and an empty replacement the string is unchanged.
\<close>

function py_remove :: "ustring \<Rightarrow> ustring \<Rightarrow> ustring" where
  "py_remove old [] = []"
| "py_remove old (c # cs) =
     (if old \<noteq> [] \<and> prefix old (c # cs)
      then py_remove old (drop (length old) (c # cs))
      else c # py_remove old cs)"
  by pat_completeness auto
termination
  by (relation "measure (\<lambda>(old, s). length s)") auto

text \<open>
  \<open>str.isspace\<close> on one code point: the characters \<open>str.strip()\<close> removes when called
  without an argument.
\<close>

definition is_space :: "nat \<Rightarrow> bool" where
  "is_space c \<longleftrightarrow>
     (9 \<le> c \<and> c \<le> 13) \<or> (28 \<le> c \<and> c \<le> 32) \<or> c = 133 \<or> c = 160 \<or> c = 5760 \<or>
     (8192 \<le> c \<and> c \<le> 8202) \<or> c = 8232 \<or> c = 8233 \<or> c = 8239 \<or> c = 8287 \<or> c = 12288"

definition py_strip :: "ustring \<Rightarrow> ustring" where
  "py_strip s = rev (dropWhile is_space (rev (dropWhile is_space s)))"

text \<open>\<open>s.endswith(suffix)\<close>.\<close>

definition endswith :: "ustring \<Rightarrow> ustring \<Rightarrow> bool" where
  "endswith s suf = suffix suf s"

section \<open>The parsed document\<close>

text \<open>
  The tree BeautifulSoup builds. Only what the script inspects is kept: the tag name, the
  list of tokens of the \<open>class\<close> attribute (empty when the attribute is missing: the
  matchers below treat both alike) and the children. \<open>Text\<close> is a \<open>NavigableString\<close>;
  \<open>Comment\<close> stands for the string kinds that \<open>get_text\<close> leaves out.
\<close>

datatype node =
    Text ustring
  | Comment ustring
  | Element (tag: ustring) (classes: "ustring list") (children: "node list")

text \<open>
  The descendants of a list of siblings in document order, each with the siblings that
  follow it (what \<open>next_siblings\<close> iterates over).
\<close>

fun descendants :: "node list \<Rightarrow> (node \<times> node list) list" where
  "descendants [] = []"
| "descendants (Text s # rest) = (Text s, rest) # descendants rest"
| "descendants (Comment s # rest) = (Comment s, rest) # descendants rest"
| "descendants (Element t cs ch # rest) =
     (Element t cs ch, rest) # descendants ch @ descendants rest"

text \<open>
  \<open>get_text(strip=True)\<close>: every text string below the element is stripped on its own,
  the empty ones are left out and the rest are concatenated with no separator.
\<close>

definition strings_of :: "node list \<Rightarrow> ustring list" where
  "strings_of ns =
     concat (map (\<lambda>(n, _). case n of Text s \<Rightarrow> [s] | _ \<Rightarrow> []) (descendants ns))"

definition get_text :: "node \<Rightarrow> ustring" where
  "get_text n =
     (case n of
        Element t cs ch \<Rightarrow> concat (filter (\<lambda>s. s \<noteq> []) (map py_strip (strings_of ch)))
      | Text s \<Rightarrow> py_strip s
      | Comment s \<Rightarrow> [])"

text \<open>
  How a search matches the multi-valued \<open>class\<close> attribute against a function: the
  function is tried on each token, then on the tokens joined by single spaces.
\<close>

fun join_sp :: "ustring list \<Rightarrow> ustring" where
  "join_sp [] = []"
| "join_sp [c] = c"
| "join_sp (c # cs) = c @ 32 # join_sp cs"

definition class_fn :: "(ustring \<Rightarrow> bool) \<Rightarrow> ustring list \<Rightarrow> bool" where
  "class_fn p cs \<longleftrightarrow> list_ex p cs \<or> p (join_sp cs)"

text \<open>Against a string: some token is the string, or the joined tokens are.\<close>

definition class_str :: "ustring \<Rightarrow> ustring list \<Rightarrow> bool" where
  "class_str c cs \<longleftrightarrow> list_ex (\<lambda>x. x = c) cs \<or> join_sp cs = c"

text \<open>
  The matcher \<open>lambda x: x and marker in x\<close>: a non-empty string containing the marker.
\<close>

definition has_marker :: "ustring \<Rightarrow> ustring \<Rightarrow> bool" where
  "has_marker marker x \<longleftrightarrow> x \<noteq> [] \<and> py_in marker x"

definition is_tag_fn :: "ustring \<Rightarrow> ustring \<Rightarrow> node \<Rightarrow> bool" where
  "is_tag_fn name marker n =
     (case n of Element t cs ch \<Rightarrow> t = name \<and> class_fn (has_marker marker) cs | _ \<Rightarrow> False)"

definition is_tag_class :: "ustring \<Rightarrow> ustring \<Rightarrow> node \<Rightarrow> bool" where
  "is_tag_class name c n =
     (case n of Element t cs ch \<Rightarrow> t = name \<and> class_str c cs | _ \<Rightarrow> False)"

definition is_tag :: "ustring \<Rightarrow> node \<Rightarrow> bool" where
  "is_tag name n = (case n of Element t cs ch \<Rightarrow> t = name | _ \<Rightarrow> False)"

text \<open>\<open>find_all\<close>, \<open>find\<close> and \<open>find_next_sibling\<close>.\<close>

definition find_all_ctx :: "(node \<Rightarrow> bool) \<Rightarrow> node list \<Rightarrow> (node \<times> node list) list" where
  "find_all_ctx p ns = filter (\<lambda>(n, _). p n) (descendants ns)"

definition find_all :: "(node \<Rightarrow> bool) \<Rightarrow> node list \<Rightarrow> node list" where
  "find_all p ns = map fst (find_all_ctx p ns)"

definition find_first :: "(node \<Rightarrow> bool) \<Rightarrow> node list \<Rightarrow> node option" where
  "find_first p ns = (case find_all p ns of [] \<Rightarrow> None | n # _ \<Rightarrow> Some n)"

definition find_next_sibling :: "(node \<Rightarrow> bool) \<Rightarrow> node list \<Rightarrow> node option" where
  "find_next_sibling p following = List.find p following"

section \<open>Dictionaries and errors\<close>

text \<open>
  A Python \<open>dict\<close> with string keys and string values keeps its keys in insertion order;
  storing under an existing key keeps the key's position.
\<close>

type_synonym dict = "(ustring \<times> ustring) list"

fun dict_set :: "ustring \<Rightarrow> ustring \<Rightarrow> dict \<Rightarrow> dict" where
  "dict_set k v [] = [(k, v)]"
| "dict_set k v ((k', v') # d) = (if k' = k then (k, v) # d else (k', v') # dict_set k v d)"

definition dict_get :: "dict \<Rightarrow> ustring \<Rightarrow> ustring option" where
  "dict_get d k = map_of d k"

text \<open>\<open>d.get(k, default)\<close>.\<close>

definition dict_get_default :: "dict \<Rightarrow> ustring \<Rightarrow> ustring \<Rightarrow> ustring" where
  "dict_get_default d k dflt = (case dict_get d k of None \<Rightarrow> dflt | Some v \<Rightarrow> v)"

text \<open>The exceptions that can reach the handlers of the script, each with its message.\<close>

datatype py_error =
    OSError ustring
  | UnicodeDecodeError ustring
  | UnicodeEncodeError ustring
  | ParserError ustring
  | IndexError ustring

fun str_of_error :: "py_error \<Rightarrow> ustring" where
  "str_of_error (OSError m) = m"
| "str_of_error (UnicodeDecodeError m) = m"
| "str_of_error (UnicodeEncodeError m) = m"
| "str_of_error (ParserError m) = m"
| "str_of_error (IndexError m) = m"

definition bind_err :: "py_error + 'a \<Rightarrow> ('a \<Rightarrow> py_error + 'b) \<Rightarrow> py_error + 'b" where
  "bind_err r f = (case r of Inl e \<Rightarrow> Inl e | Inr x \<Rightarrow> f x)"

text \<open>\<open>xs[i]\<close> for a non-negative literal index: an index out of range raises.\<close>

definition py_index :: "'a list \<Rightarrow> nat \<Rightarrow> py_error + 'a" where
  "py_index xs i =
     (if i < length xs then Inr (xs ! i) else Inl (IndexError (ascii ''list index out of range'')))"

section \<open>String constants of the script\<close>

text \<open>Basic-info keys: project name, house location, sales area, licensed use, permit number.\<close>

definition xiangmu_mingcheng :: ustring where
  "xiangmu_mingcheng = [39033, 30446, 21517, 31216]"

definition fangwu_zuoluo :: ustring where
  "fangwu_zuoluo = [25151, 23627, 22352, 33853]"

definition xiaoshou_mianji :: ustring where
  "xiaoshou_mianji = [38144, 21806, 38754, 31215]"

definition zhengzai_yongtu :: ustring where
  "zhengzai_yongtu = [38144, 21806, 35768, 21487, 35777, 35777, 36733, 29992, 36884]"

definition xukezheng_hao :: ustring where
  "xukezheng_hao = [35768, 21487, 35777, 21495]"

text \<open>The phrase removed from the page title: "commodity housing sales permit information".\<close>

definition title_phrase :: ustring where
  "title_phrase = [21830, 21697, 25151, 38144, 21806, 35768, 21487, 35777, 20449, 24687]"

text \<open>Unit keys: room number, building area, declared unit price, sold?, mortgaged?.\<close>

definition fangjian_hao :: ustring where
  "fangjian_hao = [25151, 38388, 21495]"

definition jianzhu_mianji :: ustring where
  "jianzhu_mianji = [24314, 31569, 38754, 31215]"

definition shenbao_danjia :: ustring where
  "shenbao_danjia = [30003, 25253, 38144, 21806, 21333, 20215]"

definition shifou_chushou :: ustring where
  "shifou_chushou = [26159, 21542, 20986, 21806]"

definition shifou_diya :: ustring where
  "shifou_diya = [26159, 21542, 25269, 25276]"

text \<open>The values "sold" and "yes", and the unit of measure "square metres".\<close>

definition yishou :: ustring where
  "yishou = [24050, 21806]"

definition shi :: ustring where
  "shi = [26159]"

definition pingfangmi :: ustring where
  "pingfangmi = [24179, 26041, 31859]"

text \<open>The prefixes of the two diagnostics and of the success message.\<close>

definition extract_error_prefix :: ustring where
  "extract_error_prefix =
     [25552, 21462, 36807, 31243, 20013, 21457, 29983, 38169, 35823, 58, 32]"

definition save_error_prefix :: ustring where
  "save_error_prefix =
     [20445, 23384, 25991, 20214, 26102, 21457, 29983, 38169, 35823, 58, 32]"

definition save_ok_prefix :: ustring where
  "save_ok_prefix = [25968, 25454, 24050, 25104, 21151, 20445, 23384, 21040, 58, 32]"

definition label_marker :: ustring where
  "label_marker = ascii ''el-descriptions-item__label''"

definition content_marker :: ustring where
  "content_marker = ascii ''el-descriptions-item__content''"

section \<open>Basic information\<close>

text \<open>The \<open>if\<close>/\<open>elif\<close> chain that stores a content text under the key its label names.\<close>

definition assign_field :: "ustring \<Rightarrow> ustring \<Rightarrow> dict \<Rightarrow> dict" where
  "assign_field label_text content_text basic_info =
     (if py_in xiangmu_mingcheng label_text
        then dict_set xiangmu_mingcheng content_text basic_info
      else if py_in fangwu_zuoluo label_text
        then dict_set fangwu_zuoluo content_text basic_info
      else if py_in xiaoshou_mianji label_text
        then dict_set xiaoshou_mianji content_text basic_info
      else if py_in zhengzai_yongtu label_text
        then dict_set zhengzai_yongtu content_text basic_info
      else if py_in xukezheng_hao label_text
        then dict_set xukezheng_hao content_text basic_info
      else basic_info)"

definition is_label :: "node \<Rightarrow> bool" where
  "is_label = is_tag_fn (ascii ''span'') label_marker"

definition is_content :: "node \<Rightarrow> bool" where
  "is_content = is_tag_fn (ascii ''span'') content_marker"

text \<open>One pass of the loop over the label elements, each given with its following siblings.\<close>

definition label_step :: "node \<times> node list \<Rightarrow> dict \<Rightarrow> dict" where
  "label_step lf basic_info =
     (case find_next_sibling is_content (snd lf) of
        None \<Rightarrow> basic_info
      | Some content_element \<Rightarrow>
          assign_field (get_text (fst lf)) (get_text content_element) basic_info)"

fun label_loop :: "(node \<times> node list) list \<Rightarrow> dict \<Rightarrow> dict" where
  "label_loop [] basic_info = basic_info"
| "label_loop (lf # rest) basic_info = label_loop rest (label_step lf basic_info)"

definition label_elements :: "node list \<Rightarrow> (node \<times> node list) list" where
  "label_elements soup = find_all_ctx is_label soup"

text \<open>The fallback that takes the project name from the page title.\<close>

definition title_fallback :: "node list \<Rightarrow> dict \<Rightarrow> dict" where
  "title_fallback soup basic_info =
     (if dict_get basic_info xiangmu_mingcheng = None then
        (case find_first (is_tag (ascii ''title'')) soup of
           None \<Rightarrow> basic_info
         | Some title_element \<Rightarrow>
             (let title_text = get_text title_element in
              if py_in title_phrase title_text then
                (let project_name = py_strip (py_remove title_phrase title_text) in
                 if project_name \<noteq> [] then dict_set xiangmu_mingcheng project_name basic_info
                 else basic_info)
              else basic_info))
      else basic_info)"

definition extract_basic_info :: "node list \<Rightarrow> dict" where
  "extract_basic_info soup = title_fallback soup (label_loop (label_elements soup) [])"

section \<open>Unit rows\<close>

definition find_in :: "(node \<Rightarrow> bool) \<Rightarrow> node \<Rightarrow> node option" where
  "find_in p n = (case n of Element t cs ch \<Rightarrow> find_first p ch | _ \<Rightarrow> None)"

definition find_all_in :: "(node \<Rightarrow> bool) \<Rightarrow> node \<Rightarrow> node list" where
  "find_all_in p n = (case n of Element t cs ch \<Rightarrow> find_all p ch | _ \<Rightarrow> [])"

text \<open>
  One field of a row: the stripped text of the first \<open>div\<close> of class \<open>cell\<close> inside the
  table cell, stored only when there is such a \<open>div\<close>.
\<close>

definition put_field :: "ustring \<Rightarrow> node \<Rightarrow> dict \<Rightarrow> dict" where
  "put_field key cell house_info =
     (case find_in (is_tag_class (ascii ''div'') (ascii ''cell'')) cell of
        None \<Rightarrow> house_info
      | Some d \<Rightarrow> dict_set key (get_text d) house_info)"

definition row_cells :: "node \<Rightarrow> node list" where
  "row_cells row = find_all_in (is_tag_class (ascii ''td'') (ascii ''el-table__cell'')) row"

text \<open>The truth value of \<open>house_info.get(key)\<close>: the key is there and its text is not empty.\<close>

definition truthy :: "ustring option \<Rightarrow> bool" where
  "truthy v = (case v of None \<Rightarrow> False | Some s \<Rightarrow> s \<noteq> [])"

definition row_info :: "node list \<Rightarrow> py_error + dict" where
  "row_info cells =
     bind_err (py_index cells 0) (\<lambda>room_cell.
     bind_err (py_index cells 1) (\<lambda>area_cell.
     bind_err (py_index cells 2) (\<lambda>price_cell.
     bind_err (py_index cells 3) (\<lambda>sold_cell.
     bind_err (py_index cells 4) (\<lambda>mortgage_cell.
       Inr (put_field shifou_diya mortgage_cell
             (put_field shifou_chushou sold_cell
               (put_field shenbao_danjia price_cell
                 (put_field jianzhu_mianji area_cell
                   (put_field fangjian_hao room_cell []))))))))))"

definition row_step :: "node \<Rightarrow> dict list \<Rightarrow> py_error + dict list" where
  "row_step row house_details =
     (let cells = row_cells row in
      if length cells \<ge> 5 then
        bind_err (row_info cells) (\<lambda>house_info.
          Inr (if truthy (dict_get house_info fangjian_hao)
               then house_details @ [house_info] else house_details))
      else Inr house_details)"

fun row_loop :: "node list \<Rightarrow> dict list \<Rightarrow> py_error + dict list" where
  "row_loop [] house_details = Inr house_details"
| "row_loop (row # rest) house_details =
     bind_err (row_step row house_details) (row_loop rest)"

definition table_rows :: "node list \<Rightarrow> node list" where
  "table_rows soup = find_all (is_tag_class (ascii ''tr'') (ascii ''el-table__row'')) soup"

section \<open>Statistics and the extraction result\<close>

text \<open>
  The statistics dictionary, one field per key, in the order of the keys: number of houses,
  number sold, number unsold, number mortgaged, total area (formatted) and extraction time.
  The counts are Python integers.
\<close>

record statistics =
  n_total :: int
  n_sold :: int
  n_unsold :: int
  n_mortgaged :: int
  area_total :: ustring
  extract_time :: ustring

text \<open>The returned dictionary: basic information, the list of units, the statistics.\<close>

record extraction_result =
  r_basic_info :: dict
  r_house_details :: "dict list"
  r_stats :: statistics

text \<open>What is written to a file: \<open>json.dump\<close> of the data, or the plain-text report of it
  (the layout of the report is not modelled).\<close>

datatype payload = Json_dump extraction_result | Text_report extraction_result

text \<open>
  The surroundings of the script: the file system, the HTML parser, the clock and Python's
  floating-point numbers. \<open>py_float\<close> is \<open>float\<close> on a string, \<open>None\<close> when it raises
  \<open>ValueError\<close> (the only exception \<open>float\<close> raises on a string); \<open>f_zero\<close> is the initial
  \<open>0\<close> of the running total, \<open>f_add\<close> is \<open>+=\<close> and \<open>f_format2\<close> is the format \<open>:.2f\<close>.
  \<open>write_error\<close> tells whether opening and writing a path raises, and \<open>print_error\<close>
  whether printing a line does (as when standard output cannot encode it).
\<close>

record 'f env =
  path_exists :: "ustring \<Rightarrow> bool"
  read_text :: "ustring \<Rightarrow> py_error + ustring"
  html_parser :: "ustring \<Rightarrow> py_error + node list"
  now_text :: ustring
  splitext_root :: "ustring \<Rightarrow> ustring"
  write_error :: "ustring \<Rightarrow> py_error option"
  print_error :: "ustring \<Rightarrow> py_error option"
  py_float :: "ustring \<Rightarrow> 'f option"
  f_zero :: 'f
  f_add :: "'f \<Rightarrow> 'f \<Rightarrow> 'f"
  f_format2 :: "'f \<Rightarrow> ustring"

definition total_houses :: "dict list \<Rightarrow> int" where
  "total_houses house_details = int (length house_details)"

definition sold_houses :: "dict list \<Rightarrow> int" where
  "sold_houses house_details =
     int (length (filter (\<lambda>h. dict_get h shifou_chushou = Some yishou) house_details))"

definition mortgaged_houses :: "dict list \<Rightarrow> int" where
  "mortgaged_houses house_details =
     int (length (filter (\<lambda>h. dict_get h shifou_diya = Some shi) house_details))"

text \<open>One pass of the loop that sums the areas.\<close>

definition area_step :: "'f env \<Rightarrow> dict \<Rightarrow> 'f \<Rightarrow> 'f" where
  "area_step w house total_area =
     (let area_text = dict_get_default house jianzhu_mianji [] in
      if area_text \<noteq> [] then
        (case (if py_in pingfangmi area_text
               then py_float w (py_remove pingfangmi area_text)
               else py_float w area_text) of
           Some area_value \<Rightarrow> f_add w total_area area_value
         | None \<Rightarrow> total_area)
      else total_area)"

fun area_loop :: "'f env \<Rightarrow> dict list \<Rightarrow> 'f \<Rightarrow> 'f" where
  "area_loop w [] total_area = total_area"
| "area_loop w (house # rest) total_area = area_loop w rest (area_step w house total_area)"

definition total_area :: "'f env \<Rightarrow> dict list \<Rightarrow> 'f" where
  "total_area w house_details = area_loop w house_details (f_zero w)"

definition build_stats :: "'f env \<Rightarrow> dict list \<Rightarrow> statistics" where
  "build_stats w house_details =
     \<lparr> n_total = total_houses house_details,
       n_sold = sold_houses house_details,
       n_unsold = total_houses house_details - sold_houses house_details,
       n_mortgaged = mortgaged_houses house_details,
       area_total = f_format2 w (total_area w house_details) @ pingfangmi,
       extract_time = now_text w \<rparr>"

section \<open>The extraction\<close>

text \<open>The body of the \<open>try\<close> block once the document is parsed.\<close>

definition extract_from_soup :: "'f env \<Rightarrow> node list \<Rightarrow> py_error + extraction_result" where
  "extract_from_soup w soup =
     (let basic = extract_basic_info soup in
      bind_err (row_loop (table_rows soup) []) (\<lambda>house_details.
        Inr \<lparr> r_basic_info = basic,
              r_house_details = house_details,
              r_stats = build_stats w house_details \<rparr>))"

definition try_body :: "'f env \<Rightarrow> ustring \<Rightarrow> py_error + extraction_result" where
  "try_body w html_file_path =
     bind_err (read_text w html_file_path) (\<lambda>html_content.
     bind_err (html_parser w html_content) (\<lambda>soup.
       extract_from_soup w soup))"

text \<open>
  \<open>print\<close> on a list of lines, one after the other: the lines that were printed, and the
  exception of the first line that could not be, after which nothing more is printed.
\<close>

fun print_all :: "'f env \<Rightarrow> ustring list \<Rightarrow> ustring list \<times> py_error option" where
  "print_all w [] = ([], None)"
| "print_all w (line # rest) =
     (case print_error w line of
        Some e \<Rightarrow> ([], Some e)
      | None \<Rightarrow> (case print_all w rest of (out, r) \<Rightarrow> (line # out, r)))"

text \<open>
  \<open>extract_house_sales_info\<close>: the lines it prints, and then either the exception that
  leaves it or the value it returns. The \<open>except Exception\<close> clause prints the diagnostic
  and returns \<open>None\<close>; an exception raised by that \<open>print\<close> leaves the function.
\<close>

definition extract_house_sales_info ::
    "'f env \<Rightarrow> ustring \<Rightarrow> ustring list \<times> (py_error + extraction_result option)" where
  "extract_house_sales_info w html_file_path =
     (case try_body w html_file_path of
        Inr result \<Rightarrow> ([], Inr (Some result))
      | Inl e \<Rightarrow>
          (case print_error w (extract_error_prefix @ str_of_error e) of
             None \<Rightarrow> ([extract_error_prefix @ str_of_error e], Inr None)
           | Some e' \<Rightarrow> ([], Inl e')))"

section \<open>Saving\<close>

text \<open>Opening a path for writing and writing the payload: the file written, or the error.\<close>

definition write_file :: "'f env \<Rightarrow> ustring \<Rightarrow> payload \<Rightarrow> py_error + ustring \<times> payload" where
  "write_file w output_file p =
     (case write_error w output_file of Some e \<Rightarrow> Inl e | None \<Rightarrow> Inr (output_file, p))"

definition save_body ::
    "'f env \<Rightarrow> extraction_result \<Rightarrow> ustring \<Rightarrow> py_error + ustring \<times> payload" where
  "save_body w data output_file =
     (if endswith output_file (ascii ''.json'') then
        write_file w output_file (Json_dump data)
      else if endswith output_file (ascii ''.txt'') then
        write_file w output_file (Text_report data)
      else
        write_file w (output_file @ ascii ''.json'') (Json_dump data))"

text \<open>
  What a call of \<open>save_to_file\<close> leaves behind: the lines it printed, the file it wrote,
  if any, and the exception that left it, if any.
\<close>

record saved =
  s_printed :: "ustring list"
  s_written :: "(ustring \<times> payload) option"
  s_raised :: "py_error option"

text \<open>The \<open>except Exception\<close> clause of \<open>save_to_file\<close>: it prints the diagnostic, and an
  exception raised by that \<open>print\<close> leaves the function.\<close>

definition save_handler :: "'f env \<Rightarrow> py_error \<Rightarrow> (ustring \<times> payload) option \<Rightarrow> saved" where
  "save_handler w e file =
     (case print_error w (save_error_prefix @ str_of_error e) of
        None \<Rightarrow> \<lparr> s_printed = [save_error_prefix @ str_of_error e], s_written = file,
                 s_raised = None \<rparr>
      | Some e' \<Rightarrow> \<lparr> s_printed = [], s_written = file, s_raised = Some e' \<rparr>)"

text \<open>
  \<open>save_to_file\<close>. The success message names the path written to; it is printed inside
  the \<open>try\<close> block, so an exception raised by it is handled like one of the write.
\<close>

definition save_to_file :: "'f env \<Rightarrow> extraction_result \<Rightarrow> ustring \<Rightarrow> saved" where
  "save_to_file w data output_file =
     (case save_body w data output_file of
        Inr file \<Rightarrow>
          (case print_error w (save_ok_prefix @ fst file) of
             None \<Rightarrow> \<lparr> s_printed = [save_ok_prefix @ fst file], s_written = Some file,
                      s_raised = None \<rparr>
           | Some e \<Rightarrow> save_handler w e (Some file))
      | Inl e \<Rightarrow> save_handler w e None)"

section \<open>The command line\<close>

definition default_suffix :: ustring where
  "default_suffix = [95, 38144, 21806, 20449, 24687] @ ascii ''.json''"

text \<open>\<open>str\<close> of an integer: its decimal digits, after a minus sign when it is negative.\<close>

function digits :: "nat \<Rightarrow> ustring" where
  "digits n = (if n < 10 then [48 + n] else digits (n div 10) @ [48 + n mod 10])"
  by pat_completeness auto
termination
  by (relation "measure (\<lambda>n. n)") auto

declare digits.simps [simp del]

definition str_int :: "int \<Rightarrow> ustring" where
  "str_int i = (if i < 0 then 45 # digits (nat (- i)) else digits (nat i))"

text \<open>
  The messages of \<open>main\<close>: the input file does not exist, the file is being processed,
  the four lines of counts after a successful extraction, and the extraction failed.
\<close>

definition missing_message :: "ustring \<Rightarrow> ustring" where
  "missing_message html_file =
     [38169, 35823, 58, 32, 25991, 20214, 32, 39] @ html_file @ [39, 32, 19981, 23384, 22312]"

definition processing_message :: "ustring \<Rightarrow> ustring" where
  "processing_message html_file =
     [27491, 22312, 22788, 29702, 25991, 20214, 58, 32] @ html_file"

definition summary_messages :: "extraction_result \<Rightarrow> ustring list" where
  "summary_messages data =
     [[25104, 21151, 25552, 21462, 21040, 32] @ str_int (n_total (r_stats data)) @
        [32, 22871, 25151, 23627, 20449, 24687],
      [24050, 21806, 25151, 23627, 58, 32] @ str_int (n_sold (r_stats data)) @ [32, 22871],
      [26410, 21806, 25151, 23627, 58, 32] @ str_int (n_unsold (r_stats data)) @ [32, 22871],
      [25269, 25276, 25151, 23627, 58, 32] @ str_int (n_mortgaged (r_stats data)) @ [32, 22871]]"

definition failed_message :: ustring where
  "failed_message =
     [25552, 21462, 22833, 36133, 65292, 35831, 26816, 26597] @ ascii ''HTML'' @
     [25991, 20214, 26684, 24335]"

text \<open>
  A run of the program: its exit status, what it printed, the file it wrote and the
  exception that ended it, if one did. \<open>sys.exit(1)\<close> and an exception that nothing
  catches both end the run with status 1; a run that reaches the end of \<open>main\<close> has
  status 0.
\<close>

record run =
  exit_code :: nat
  printed :: "ustring list"
  written :: "(ustring \<times> payload) option"
  uncaught :: "py_error option"

text \<open>The branch of \<open>main\<close> taken when the extraction returned data.\<close>

definition main_save :: "'f env \<Rightarrow> extraction_result \<Rightarrow> ustring \<Rightarrow> ustring list \<Rightarrow> run" where
  "main_save w data output_file out =
     (case print_all w (summary_messages data) of
        (out', Some e) \<Rightarrow>
          \<lparr> exit_code = 1, printed = out @ out', written = None, uncaught = Some e \<rparr>
      | (out', None) \<Rightarrow>
          (let s = save_to_file w data output_file in
           \<lparr> exit_code = (case s_raised s of None \<Rightarrow> 0 | Some e \<Rightarrow> 1),
             printed = out @ out' @ s_printed s,
             written = s_written s,
             uncaught = s_raised s \<rparr>))"

text \<open>
  \<open>main\<close> after argument parsing: the input path and the optional output path. An empty
  \<open>--output\<close> is replaced by the default like a missing one.
\<close>

definition main :: "'f env \<Rightarrow> ustring \<Rightarrow> ustring option \<Rightarrow> run" where
  "main w html_file output =
     (if \<not> path_exists w html_file then
        (case print_all w [missing_message html_file] of
           (out, r) \<Rightarrow> \<lparr> exit_code = 1, printed = out, written = None, uncaught = r \<rparr>)
      else
        (let output_file =
               (case output of
                  Some out \<Rightarrow> if out \<noteq> [] then out else splitext_root w html_file @ default_suffix
                | None \<Rightarrow> splitext_root w html_file @ default_suffix)
         in case print_all w [processing_message html_file] of
              (out, Some e) \<Rightarrow>
                \<lparr> exit_code = 1, printed = out, written = None, uncaught = Some e \<rparr>
            | (out, None) \<Rightarrow>
                (case extract_house_sales_info w html_file of
                   (out', Inl e) \<Rightarrow>
                     \<lparr> exit_code = 1, printed = out @ out', written = None,
                       uncaught = Some e \<rparr>
                 | (out', Inr None) \<Rightarrow>
                     (case print_all w [failed_message] of
                        (out'', r) \<Rightarrow>
                          \<lparr> exit_code = 1, printed = out @ out' @ out'', written = None,
                            uncaught = r \<rparr>)
                 | (out', Inr (Some data)) \<Rightarrow> main_save w data output_file (out @ out'))))"

section \<open>The rows that are kept\<close>

text \<open>
  The rule for the unit table, written without the search functions: the elements below a
  node in document order, the rows, cells and wrappers by tag name and class token, the
  text a cell contributes (the stripped text of the first wrapper below it, if there is
  one), the unit identifier of a row (what its first marked cell contributes), the
  condition for keeping a row, and the record of a kept row: for the first five marked
  cells in turn, the field of that position with the text the cell contributes, left out
  when the cell contributes none.
\<close>

definition below :: "node \<Rightarrow> node list" where
  "below n = (case n of Element t cs ch \<Rightarrow> map fst (descendants ch) | _ \<Rightarrow> [])"

definition data_row :: "node \<Rightarrow> bool" where
  "data_row n =
     (case n of
        Element t cs ch \<Rightarrow> t = ascii ''tr'' \<and> ascii ''el-table__row'' \<in> set cs
      | _ \<Rightarrow> False)"

definition data_cell :: "node \<Rightarrow> bool" where
  "data_cell n =
     (case n of
        Element t cs ch \<Rightarrow> t = ascii ''td'' \<and> ascii ''el-table__cell'' \<in> set cs
      | _ \<Rightarrow> False)"

definition wrapper :: "node \<Rightarrow> bool" where
  "wrapper n =
     (case n of Element t cs ch \<Rightarrow> t = ascii ''div'' \<and> ascii ''cell'' \<in> set cs | _ \<Rightarrow> False)"

definition data_rows :: "node list \<Rightarrow> node list" where
  "data_rows soup = filter data_row (map fst (descendants soup))"

definition marked_cells :: "node \<Rightarrow> node list" where
  "marked_cells row = filter data_cell (below row)"

definition cell_text :: "node \<Rightarrow> ustring option" where
  "cell_text cell = (case filter wrapper (below cell) of [] \<Rightarrow> None | d # _ \<Rightarrow> Some (get_text d))"

definition unit_id :: "node \<Rightarrow> ustring option" where
  "unit_id row = (case marked_cells row of [] \<Rightarrow> None | c # _ \<Rightarrow> cell_text c)"

definition row_accepted :: "node \<Rightarrow> bool" where
  "row_accepted row \<longleftrightarrow>
     5 \<le> length (marked_cells row) \<and> (case unit_id row of None \<Rightarrow> False | Some s \<Rightarrow> s \<noteq> [])"

definition unit_keys :: "ustring list" where
  "unit_keys = [fangjian_hao, jianzhu_mianji, shenbao_danjia, shifou_chushou, shifou_diya]"

definition unit_record :: "node \<Rightarrow> dict" where
  "unit_record row =
     concat (map (\<lambda>(k, c). case cell_text c of None \<Rightarrow> [] | Some t \<Rightarrow> [(k, t)])
       (zip unit_keys (marked_cells row)))"

text \<open>The page title: the first element of the document whose tag is \<open>title\<close>.\<close>

definition page_title :: "node list \<Rightarrow> node option" where
  "page_title soup =
     (case filter (\<lambda>n. case n of Element t cs ch \<Rightarrow> t = ascii ''title'' | _ \<Rightarrow> False)
             (map fst (descendants soup)) of
        [] \<Rightarrow> None
      | t # _ \<Rightarrow> Some t)"

section \<open>The path that is written\<close>

text \<open>The path the save operation opens: the destination, with \<open>.json\<close> appended when
  it ends in neither of the two extensions.\<close>

definition save_path :: "ustring \<Rightarrow> ustring" where
  "save_path output_file =
     (if endswith output_file (ascii ''.json'') then output_file
      else if endswith output_file (ascii ''.txt'') then output_file
      else output_file @ ascii ''.json'')"

section \<open>The field a label selects\<close>

text \<open>
  The five field names in the order in which the \<open>if\<close>/\<open>elif\<close> chain tries them, the
  field a label text selects (the first name it contains), and the assignments the loop
  over the labels makes, in document order.
\<close>

definition field_names :: "ustring list" where
  "field_names =
     [xiangmu_mingcheng, fangwu_zuoluo, xiaoshou_mianji, zhengzai_yongtu, xukezheng_hao]"

definition matched_key :: "ustring \<Rightarrow> ustring option" where
  "matched_key label_text = List.find (\<lambda>k. py_in k label_text) field_names"

definition label_assignment :: "node \<times> node list \<Rightarrow> (ustring \<times> ustring) list" where
  "label_assignment lf =
     (case find_next_sibling is_content (snd lf) of
        None \<Rightarrow> []
      | Some content_element \<Rightarrow>
          (case matched_key (get_text (fst lf)) of
             None \<Rightarrow> []
           | Some k \<Rightarrow> [(k, get_text content_element)]))"

definition label_assignments :: "(node \<times> node list) list \<Rightarrow> (ustring \<times> ustring) list" where
  "label_assignments ls = concat (map label_assignment ls)"

section \<open>The reading of the pairing rule by adjacency\<close>

text \<open>
  The immediate next sibling element of a label, taken as its content when it carries the
  content marker: the reading under which the pairing rule is compared with
  \<open>find_next_sibling\<close> below.
\<close>

definition is_element :: "node \<Rightarrow> bool" where
  "is_element n = (case n of Element t cs ch \<Rightarrow> True | _ \<Rightarrow> False)"

definition immediate_content :: "node list \<Rightarrow> node option" where
  "immediate_content following =
     (case List.find is_element following of
        None \<Rightarrow> None
      | Some n \<Rightarrow> if is_content n then Some n else None)"

section \<open>The reading of the area rule by suffix\<close>

text \<open>
  Removing the unit of measure only where it ends the text: the reading under which the
  area rule is compared with \<open>area_step\<close> below.
\<close>

definition strip_suffix :: "ustring \<Rightarrow> ustring \<Rightarrow> ustring" where
  "strip_suffix suf s = (if endswith s suf then take (length s - length suf) s else s)"

definition area_by_suffix :: "'f env \<Rightarrow> dict \<Rightarrow> 'f \<Rightarrow> 'f" where
  "area_by_suffix w house tot =
     (case py_float w (strip_suffix pingfangmi (dict_get_default house jianzhu_mianji [])) of
        Some v \<Rightarrow> f_add w tot v
      | None \<Rightarrow> tot)"

section \<open>Sample inputs\<close>

text \<open>
  Small documents and surroundings on which the theorems below are instantiated: a label
  and a content element as the page renders them, a table cell with its wrapper, a table
  row, a number parser that knows two decimal numerals, and surroundings in which every
  file can be read and written and the parser returns the given tree.
\<close>

definition sample_label :: "ustring \<Rightarrow> node" where
  "sample_label t = Element (ascii ''span'') [label_marker] [Text t]"

definition sample_content :: "ustring \<Rightarrow> node" where
  "sample_content t = Element (ascii ''span'') [content_marker] [Text t]"

definition sample_cell :: "ustring \<Rightarrow> node" where
  "sample_cell t =
     Element (ascii ''td'') [ascii ''el-table__cell'']
       [Element (ascii ''div'') [ascii ''cell''] [Text t]]"

definition sample_row :: "ustring list \<Rightarrow> node" where
  "sample_row ts = Element (ascii ''tr'') [ascii ''el-table__row''] (map sample_cell ts)"

definition sample_float :: "ustring \<Rightarrow> rat option" where
  "sample_float s =
     (if s = ascii ''89.5'' then Some (179 / 2) else if s = ascii ''5'' then Some 5 else None)"

definition sample_env :: "node list \<Rightarrow> rat env" where
  "sample_env soup =
     \<lparr> path_exists = (\<lambda>p. True),
       read_text = (\<lambda>p. Inr []),
       html_parser = (\<lambda>html. Inr soup),
       now_text = ascii ''2024-01-01 00:00:00'',
       splitext_root = (\<lambda>p. p),
       write_error = (\<lambda>p. None),
       print_error = (\<lambda>line. None),
       py_float = sample_float,
       f_zero = 0,
       f_add = (\<lambda>a b. a + b),
       f_format2 = (\<lambda>x. []) \<rparr>"

text \<open>
  Four table rows: a sold unit with a well-formed area, a row of four cells, a row whose
  identifier is a single space, and an unsold, mortgaged unit whose area is not a number.
\<close>

definition sample_a :: "ustring list" where
  "sample_a = [ascii '' A101 '', ascii ''89.5'' @ pingfangmi, ascii ''12000'', yishou, ascii ''no'']"

definition sample_b :: "ustring list" where
  "sample_b = [ascii ''A102'', ascii ''abc'', ascii ''12000'', yishou]"

definition sample_c :: "ustring list" where
  "sample_c = [[32], ascii ''5'', ascii ''12000'', yishou, shi]"

definition sample_d :: "ustring list" where
  "sample_d = [ascii ''A104'', ascii ''abc'', ascii ''9000'', ascii ''unsold'', shi]"

definition sample_soup_rows :: "node list" where
  "sample_soup_rows = map sample_row [sample_a, sample_b, sample_c, sample_d]"

text \<open>
  A table as the page nests it, with the four rows above and four more: a header row that
  lacks the row class, a row whose first \<open>td\<close> lacks the cell class, a row whose
  identifier stands outside a wrapper, and a row whose fourth cell holds a nested table
  with the fifth marked cell.
\<close>

definition sample_header :: node where
  "sample_header =
     Element (ascii ''tr'') [ascii ''header'']
       (map sample_cell [ascii ''H1'', ascii ''H2'', ascii ''H3'', ascii ''H4'', ascii ''H5''])"

definition sample_e :: node where
  "sample_e =
     Element (ascii ''tr'') [ascii ''el-table__row'', ascii ''striped'']
       (Element (ascii ''td'') [] [Element (ascii ''div'') [ascii ''cell''] [Text (ascii ''A105'')]] #
        map sample_cell [ascii ''60'', ascii ''9000'', yishou, shi])"

definition sample_f :: node where
  "sample_f =
     Element (ascii ''tr'') [ascii ''el-table__row'']
       (Element (ascii ''td'') [ascii ''el-table__cell''] [Text (ascii ''A106'')] #
        map sample_cell [ascii ''60'', ascii ''9000'', yishou, shi])"

definition sample_g :: node where
  "sample_g =
     Element (ascii ''tr'') [ascii ''striped'', ascii ''el-table__row'']
       [sample_cell (ascii ''A107''), sample_cell (ascii ''5''), sample_cell (ascii ''9000''),
        Element (ascii ''td'') [ascii ''el-table__cell'', ascii ''is-leaf'']
          [Element (ascii ''div'') [ascii ''cell''] [Text yishou],
           Element (ascii ''table'') [] [Element (ascii ''tr'') [] [sample_cell shi]]]]"

definition sample_soup_table :: "node list" where
  "sample_soup_table =
     [Element (ascii ''table'') []
        [Element (ascii ''tbody'') []
           [sample_row sample_a, sample_header, sample_row sample_b, sample_row sample_c,
            sample_e, sample_f, sample_g, sample_row sample_d]]]"

text \<open>A project name ("sunshine garden") and a \<open>span\<close> that carries no class.\<close>

definition yangguang_huayuan :: ustring where
  "yangguang_huayuan = [38451, 20809, 33457, 22253]"

definition sample_plain :: node where
  "sample_plain = Element (ascii ''span'') [] [Text (ascii ''x'')]"

text \<open>
  A page with two project-name labels, the first one ending in a colon, and a page that
  has only a title.
\<close>

definition sample_soup_labels :: "node list" where
  "sample_soup_labels =
     [sample_label (xiangmu_mingcheng @ ascii '':''), sample_content (ascii ''A''),
      sample_label xiangmu_mingcheng, sample_content yangguang_huayuan]"

definition sample_title :: "ustring \<Rightarrow> node" where
  "sample_title t = Element (ascii ''title'') [] [Text t]"

definition sample_soup_title :: "node list" where
  "sample_soup_title = [sample_title (yangguang_huayuan @ title_phrase)]"

text \<open>
  A whole page: the title comes after another element of the head, its text is surrounded
  by white space and has a space between the name and the phrase, and the body has text
  of its own.
\<close>

definition sample_title_text :: ustring where
  "sample_title_text = [10, 32] @ yangguang_huayuan @ [32] @ title_phrase @ [10]"

definition sample_soup_page :: "node list" where
  "sample_soup_page =
     [Element (ascii ''html'') []
        [Element (ascii ''head'') []
           [Element (ascii ''meta'') [] [],
            sample_title sample_title_text],
         Element (ascii ''body'') [] [Element (ascii ''div'') [] [Text (ascii ''welcome'')]]]]"

text \<open>
  Surroundings in which the input cannot be read, the parser fails, or no file can be
  written, and the error used for each.
\<close>

definition sample_error :: py_error where
  "sample_error = OSError (ascii ''denied'')"

definition unreadable_env :: "rat env" where
  "unreadable_env = (sample_env []) \<lparr> read_text := (\<lambda>p. Inl sample_error) \<rparr>"

definition unparsable_env :: "rat env" where
  "unparsable_env =
     (sample_env []) \<lparr> html_parser := (\<lambda>html. Inl (ParserError (ascii ''bad markup''))) \<rparr>"

definition unwritable_env :: "rat env" where
  "unwritable_env =
     (sample_env sample_soup_rows) \<lparr> write_error := (\<lambda>p. Some sample_error) \<rparr>"

text \<open>
  Surroundings in which, besides, a line cannot be printed: any line at all, or the
  diagnostic of the failed write.
\<close>

definition encode_error :: py_error where
  "encode_error = UnicodeEncodeError (ascii ''codec cannot encode'')"

definition garbled_env :: "rat env" where
  "garbled_env = unreadable_env \<lparr> print_error := (\<lambda>line. Some encode_error) \<rparr>"

definition mute_env :: "rat env" where
  "mute_env =
     unwritable_env
       \<lparr> print_error :=
           (\<lambda>line. if line = save_error_prefix @ ascii ''denied'' then Some encode_error
                   else None) \<rparr>"

text \<open>A result to be saved: the one with no basic information and no units.\<close>

definition sample_data :: extraction_result where
  "sample_data =
     \<lparr> r_basic_info = [], r_house_details = [], r_stats = build_stats (sample_env []) [] \<rparr>"

section \<open>Basic facts\<close>

lemma py_in_sublist: "py_in needle hay \<longleftrightarrow> sublist needle hay"
  by (induction hay) (simp_all add: sublist_Cons_right)

lemma py_remove_absent: "\<not> py_in old s \<Longrightarrow> py_remove old s = s"
  by (induction s) auto

lemma dict_get_set: "dict_get (dict_set k v d) k' = (if k' = k then Some v else dict_get d k')"
  by (induction d) (auto simp: dict_get_def)

lemma bind_err_Inr [simp]: "bind_err (Inr x) f = f x"
  by (simp add: bind_err_def)

lemma bind_err_Inl [simp]: "bind_err (Inl e) f = Inl e"
  by (simp add: bind_err_def)

lemma py_index_in_range: "i < length xs \<Longrightarrow> py_index xs i = Inr (xs ! i)"
  by (simp add: py_index_def)

lemma row_info_value:
  assumes "5 \<le> length cells"
  shows "row_info cells =
     Inr (put_field shifou_diya (cells ! 4)
           (put_field shifou_chushou (cells ! 3)
             (put_field shenbao_danjia (cells ! 2)
               (put_field jianzhu_mianji (cells ! 1)
                 (put_field fangjian_hao (cells ! 0) [])))))"
proof -
  from assms have "0 < length cells" "1 < length cells" "2 < length cells"
    "3 < length cells" "4 < length cells" by arith+
  then show ?thesis
    by (simp only: row_info_def py_index_in_range bind_err_Inr)
qed

lemma row_info_total: "5 \<le> length cells \<Longrightarrow> \<exists>info. row_info cells = Inr info"
  by (simp add: row_info_value)

lemma row_step_total: "\<exists>hs. row_step row house_details = Inr hs"
proof (cases "5 \<le> length (row_cells row)")
  case True
  from row_info_total [OF True] obtain info where "row_info (row_cells row) = Inr info" ..
  with True show ?thesis by (simp add: row_step_def)
next
  case False
  then show ?thesis by (simp add: row_step_def)
qed

lemma row_loop_total: "\<exists>hs. row_loop rows house_details = Inr hs"
proof (induction rows arbitrary: house_details)
  case Nil
  show ?case by simp
next
  case (Cons row rows)
  obtain hs where "row_step row house_details = Inr hs"
    using row_step_total by blast
  with Cons show ?case by simp
qed

lemma extract_from_soup_total: "\<exists>r. extract_from_soup w soup = Inr r"
proof -
  obtain hs where "row_loop (table_rows soup) [] = Inr hs"
    using row_loop_total by blast
  then show ?thesis by (simp add: extract_from_soup_def)
qed

lemma extraction_succeeds:
  assumes "read_text w p = Inr html" and "html_parser w html = Inr soup"
  shows "\<exists>r. extract_house_sales_info w p = ([], Inr (Some r))"
proof -
  obtain r where "extract_from_soup w soup = Inr r"
    using extract_from_soup_total by blast
  with assms show ?thesis
    by (simp add: extract_house_sales_info_def try_body_def)
qed

lemma sample_extraction:
  "\<exists>r. extract_house_sales_info (sample_env soup) p = ([], Inr (Some r))"
  by (rule extraction_succeeds [where html = "[]" and soup = soup])
     (simp_all add: sample_env_def)

lemma sold_le_total: "0 \<le> sold_houses hs \<and> sold_houses hs \<le> total_houses hs"
  by (simp add: sold_houses_def total_houses_def)

section \<open>The statistics invariant\<close>

text \<open>
  Claim C1. Whenever the extraction returns a result, its statistics satisfy
  unsold = total - sold, and total is the length of the list of units the result holds
  (the rows that were kept). Hence unsold + sold = total, and unsold is not negative.
\<close>

theorem statistics_invariant:
  assumes "extract_house_sales_info w html_file_path = (out, Inr (Some r))"
  shows "n_unsold (r_stats r) = n_total (r_stats r) - n_sold (r_stats r) \<and>
         n_total (r_stats r) = int (length (r_house_details r)) \<and>
         n_unsold (r_stats r) + n_sold (r_stats r) = n_total (r_stats r) \<and>
         0 \<le> n_unsold (r_stats r)"
proof -
  from assms have tb: "try_body w html_file_path = Inr r"
    by (auto simp: extract_house_sales_info_def split: sum.splits option.splits)
  then obtain soup hs where r: "r = \<lparr> r_basic_info = extract_basic_info soup,
        r_house_details = hs, r_stats = build_stats w hs \<rparr>"
    by (auto simp: try_body_def extract_from_soup_def bind_err_def Let_def split: sum.splits)
  show ?thesis
    using sold_le_total [of hs] by (simp add: r build_stats_def total_houses_def)
qed

theorem statistics_invariant_witness:
  "\<exists>r. extract_house_sales_info
          (sample_env [sample_row [ascii ''A101'', ascii ''89.5'', ascii ''1'', yishou, shi]]) []
        = ([], Inr (Some r)) \<and>
       n_unsold (r_stats r) = n_total (r_stats r) - n_sold (r_stats r) \<and>
       n_total (r_stats r) = int (length (r_house_details r)) \<and>
       n_unsold (r_stats r) + n_sold (r_stats r) = n_total (r_stats r) \<and>
       0 \<le> n_unsold (r_stats r)"
proof -
  obtain r where h: "extract_house_sales_info
      (sample_env [sample_row [ascii ''A101'', ascii ''89.5'', ascii ''1'', yishou, shi]]) []
      = ([], Inr (Some r))"
    using sample_extraction by blast
  from statistics_invariant [OF h] h show ?thesis by blast
qed

section \<open>Searching a tree\<close>

lemma nodes_of_append:
  "map fst (descendants (xs @ ys)) = map fst (descendants xs) @ map fst (descendants ys)"
  by (induction xs rule: descendants.induct) simp_all

lemma find_all_filter: "find_all p ns = filter p (map fst (descendants ns))"
  by (simp add: find_all_def find_all_ctx_def filter_map comp_def case_prod_unfold)

lemma find_all_Nil: "find_all p [] = []"
  by (simp add: find_all_filter)

lemma find_all_Element:
  "find_all p (Element t cs ch # rest) =
     (if p (Element t cs ch) then [Element t cs ch] else []) @ find_all p ch @ find_all p rest"
  by (simp add: find_all_filter)

lemma find_all_Text:
  "find_all p (Text s # rest) = (if p (Text s) then [Text s] else []) @ find_all p rest"
  by (simp add: find_all_filter)

lemma join_sp_has_space: "32 \<in> set (join_sp (x # y # zs))"
  by simp

lemma joined_token:
  assumes "32 \<notin> set c" and "c \<noteq> []" and "join_sp cs = c"
  shows "c \<in> set cs"
proof (cases cs)
  case Nil
  with assms show ?thesis by simp
next
  case (Cons x xs)
  show ?thesis
  proof (cases xs)
    case Nil
    with Cons assms show ?thesis by simp
  next
    case (Cons y zs)
    with \<open>cs = x # xs\<close> assms join_sp_has_space [of x y zs] show ?thesis by simp
  qed
qed

lemma class_str_member:
  assumes "32 \<notin> set c" and "c \<noteq> []"
  shows "class_str c cs \<longleftrightarrow> c \<in> set cs"
  using joined_token [OF assms] by (auto simp: class_str_def list_ex_iff)

lemma class_names_plain:
  "32 \<notin> set (ascii ''el-table__row'')" "32 \<notin> set (ascii ''el-table__cell'')"
  "32 \<notin> set (ascii ''cell'')"
  by (simp_all add: ascii_def)

lemma ascii_not_empty: "ascii (c # cs) \<noteq> []"
  by (simp add: ascii_def)

lemma is_data_row: "is_tag_class (ascii ''tr'') (ascii ''el-table__row'') = data_row"
  by (rule ext)
     (simp add: is_tag_class_def data_row_def class_str_member class_names_plain
        ascii_not_empty split: node.splits)

lemma is_data_cell: "is_tag_class (ascii ''td'') (ascii ''el-table__cell'') = data_cell"
  by (rule ext)
     (simp add: is_tag_class_def data_cell_def class_str_member class_names_plain
        ascii_not_empty split: node.splits)

lemma is_wrapper: "is_tag_class (ascii ''div'') (ascii ''cell'') = wrapper"
  by (rule ext)
     (simp add: is_tag_class_def wrapper_def class_str_member class_names_plain
        ascii_not_empty split: node.splits)

lemma table_rows_data_rows: "table_rows soup = data_rows soup"
  by (simp add: table_rows_def data_rows_def find_all_filter is_data_row)

lemma row_cells_marked: "row_cells row = marked_cells row"
  by (simp add: row_cells_def marked_cells_def find_all_in_def below_def find_all_filter
        is_data_cell split: node.splits)

lemma put_field_cell_text:
  "put_field key cell d = (case cell_text cell of None \<Rightarrow> d | Some t \<Rightarrow> dict_set key t d)"
  by (simp add: put_field_def cell_text_def find_in_def find_first_def find_all_filter
        below_def is_wrapper split: node.splits list.splits)

section \<open>Which rows are kept\<close>

lemma unit_keys_distinct:
  "fangjian_hao \<noteq> jianzhu_mianji" "fangjian_hao \<noteq> shenbao_danjia"
  "fangjian_hao \<noteq> shifou_chushou" "fangjian_hao \<noteq> shifou_diya"
  "jianzhu_mianji \<noteq> shenbao_danjia" "jianzhu_mianji \<noteq> shifou_chushou"
  "jianzhu_mianji \<noteq> shifou_diya" "shenbao_danjia \<noteq> shifou_chushou"
  "shenbao_danjia \<noteq> shifou_diya" "shifou_chushou \<noteq> shifou_diya"
  "jianzhu_mianji \<noteq> fangjian_hao" "shenbao_danjia \<noteq> fangjian_hao"
  "shifou_chushou \<noteq> fangjian_hao" "shifou_diya \<noteq> fangjian_hao"
  "shenbao_danjia \<noteq> jianzhu_mianji" "shifou_chushou \<noteq> jianzhu_mianji"
  "shifou_diya \<noteq> jianzhu_mianji" "shifou_chushou \<noteq> shenbao_danjia"
  "shifou_diya \<noteq> shenbao_danjia" "shifou_diya \<noteq> shifou_chushou"
  by (simp_all add: fangjian_hao_def jianzhu_mianji_def shenbao_danjia_def
        shifou_chushou_def shifou_diya_def)

lemma five_fields:
  "put_field shifou_diya c4
     (put_field shifou_chushou c3
       (put_field shenbao_danjia c2
         (put_field jianzhu_mianji c1
           (put_field fangjian_hao c0 [])))) =
   concat (map (\<lambda>(k, c). case cell_text c of None \<Rightarrow> [] | Some t \<Rightarrow> [(k, t)])
     (zip unit_keys (c0 # c1 # c2 # c3 # c4 # rest)))"
  by (simp add: put_field_cell_text unit_keys_def unit_keys_distinct split: option.splits)

lemma five_fields_room:
  "dict_get
     (put_field shifou_diya c4
       (put_field shifou_chushou c3
         (put_field shenbao_danjia c2
           (put_field jianzhu_mianji c1
             (put_field fangjian_hao c0 [])))))
     fangjian_hao = cell_text c0"
  by (simp add: put_field_cell_text dict_get_set unit_keys_distinct dict_get_def
        split: option.splits)

lemma five_cells:
  assumes "5 \<le> length cells"
  obtains c0 c1 c2 c3 c4 rest where "cells = c0 # c1 # c2 # c3 # c4 # rest"
proof -
  from assms obtain c0 r0 where "cells = c0 # r0" by (cases cells) auto
  moreover with assms obtain c1 r1 where "r0 = c1 # r1" by (cases r0) auto
  moreover with assms calculation obtain c2 r2 where "r1 = c2 # r2" by (cases r1) auto
  moreover with assms calculation obtain c3 r3 where "r2 = c3 # r3" by (cases r2) auto
  moreover with assms calculation obtain c4 r4 where "r3 = c4 # r4" by (cases r3) auto
  ultimately show ?thesis using that by blast
qed

lemma row_step_value:
  "row_step row hs = Inr (if row_accepted row then hs @ [unit_record row] else hs)"
proof (cases "5 \<le> length (marked_cells row)")
  case True
  then obtain c0 c1 c2 c3 c4 rest where cells: "marked_cells row = c0 # c1 # c2 # c3 # c4 # rest"
    by (rule five_cells)
  have len: "5 \<le> length (row_cells row)"
    using True by (simp add: row_cells_marked)
  have "row_info (row_cells row) =
      Inr (put_field shifou_diya c4
            (put_field shifou_chushou c3
              (put_field shenbao_danjia c2
                (put_field jianzhu_mianji c1
                  (put_field fangjian_hao c0 [])))))"
    using row_info_value [OF len] by (simp add: row_cells_marked cells)
  then have info: "row_info (row_cells row) = Inr (unit_record row)"
    using five_fields [of c4 c3 c2 c1 c0 rest] by (simp add: cells unit_record_def)
  have room: "dict_get (unit_record row) fangjian_hao = unit_id row"
    using five_fields [of c4 c3 c2 c1 c0 rest] five_fields_room [of c4 c3 c2 c1 c0]
    by (simp add: unit_record_def unit_id_def cells)
  from True len info room show ?thesis
    by (simp add: row_step_def row_accepted_def truthy_def)
next
  case False
  then show ?thesis by (simp add: row_step_def row_accepted_def row_cells_marked)
qed

lemma row_loop_value:
  "row_loop rows hs = Inr (hs @ map unit_record (filter row_accepted rows))"
  by (induction rows arbitrary: hs) (simp_all add: row_step_value)

text \<open>
  Claim C3. The list of units holds exactly one entry for each element of the document,
  at any depth, that is a \<open>tr\<close> with the data-row class among its class tokens, has at
  least five \<open>td\<close> elements with the data-cell class below it, and has a non-empty unit
  identifier; the entries come in document order, and no other row has one. The entry of
  a kept row is its whole record. The unit identifier is the stripped text of the first
  wrapper \<open>div\<close> in the first marked cell (a cell without the wrapper gives no identifier).
\<close>

theorem rows_kept_iff_accepted:
  "row_loop (table_rows soup) [] =
     Inr (map unit_record (filter row_accepted (data_rows soup))) \<and>
   (\<exists>r. extract_from_soup w soup = Inr r \<and>
        r_house_details r = map unit_record (filter row_accepted (data_rows soup)))"
  by (simp add: row_loop_value extract_from_soup_def table_rows_data_rows)

section \<open>The sample table\<close>

lemma ascii_eq: "ascii s = ascii t \<longleftrightarrow> s = t"
  by (simp add: ascii_def inj_map_eq_map [OF inj_of_char])

lemma nodes_Element:
  "map fst (descendants (Element t cs ch # rest)) =
     Element t cs ch # map fst (descendants ch) @ map fst (descendants rest)"
  by simp

lemma nodes_Text: "map fst (descendants (Text s # rest)) = Text s # map fst (descendants rest)"
  by simp

lemma nodes_Nil: "map fst (descendants []) = []"
  by simp

lemma nodes_of_cells:
  "map fst (descendants (map sample_cell ts)) =
     concat (map (\<lambda>t. [sample_cell t, Element (ascii ''div'') [ascii ''cell''] [Text t], Text t]) ts)"
  by (induction ts) (simp_all add: sample_cell_def)

lemma cells_of_cells:
  "filter data_cell (map fst (descendants (map sample_cell ts))) = map sample_cell ts"
  by (induction ts) (simp_all add: sample_cell_def data_cell_def ascii_eq)

lemma rows_of_cells: "filter data_row (map fst (descendants (map sample_cell ts))) = []"
  by (induction ts) (simp_all add: sample_cell_def data_row_def ascii_eq)

lemma marked_cells_sample: "marked_cells (sample_row ts) = map sample_cell ts"
  by (simp add: marked_cells_def below_def sample_row_def cells_of_cells)

lemma cell_text_sample: "cell_text (sample_cell t) = Some (py_strip t)"
  by (simp add: cell_text_def below_def sample_cell_def wrapper_def get_text_def strings_of_def
        ascii_eq)

lemma data_row_samples:
  "data_row (sample_row ts)" "\<not> data_row sample_header" "data_row sample_e"
  "data_row sample_f" "data_row sample_g"
  by (simp_all add: data_row_def sample_row_def sample_header_def sample_e_def sample_f_def
        sample_g_def ascii_eq)

lemma rows_below_samples:
  "filter data_row (below (sample_row ts)) = []" "filter data_row (below sample_header) = []"
  "filter data_row (below sample_e) = []" "filter data_row (below sample_f) = []"
  "filter data_row (below sample_g) = []"
  by (simp_all add: below_def sample_row_def sample_header_def sample_e_def sample_f_def
        sample_g_def rows_of_cells)
     (simp_all add: data_row_def sample_cell_def ascii_eq)

lemma data_rows_Cons:
  "data_rows (n # rest) = (if data_row n then [n] else []) @ filter data_row (below n) @ data_rows rest"
  by (cases n) (simp_all add: data_rows_def below_def data_row_def)

lemma data_rows_sample_table:
  "data_rows sample_soup_table =
     [sample_row sample_a, sample_row sample_b, sample_row sample_c, sample_e, sample_f,
      sample_g, sample_row sample_d]"
proof -
  have "data_rows [sample_row sample_a, sample_header, sample_row sample_b, sample_row sample_c,
            sample_e, sample_f, sample_g, sample_row sample_d] =
     [sample_row sample_a, sample_row sample_b, sample_row sample_c, sample_e, sample_f,
      sample_g, sample_row sample_d]"
    by (simp add: data_rows_Cons data_row_samples rows_below_samples) (simp add: data_rows_def)
  then show ?thesis
    by (simp add: sample_soup_table_def data_rows_def data_row_def ascii_eq)
qed

lemma cells_below_Cons:
  "filter data_cell (map fst (descendants (Element t cs ch # rest))) =
     (if data_cell (Element t cs ch) then [Element t cs ch] else []) @
     filter data_cell (map fst (descendants ch)) @ filter data_cell (map fst (descendants rest))"
  by simp

lemma marked_cells_e:
  "marked_cells sample_e = map sample_cell [ascii ''60'', ascii ''9000'', yishou, shi]"
  by (simp only: marked_cells_def below_def sample_e_def node.case cells_below_Cons
        cells_of_cells)
     (simp add: data_cell_def ascii_eq)

lemma marked_cells_f:
  "marked_cells sample_f =
     Element (ascii ''td'') [ascii ''el-table__cell''] [Text (ascii ''A106'')] #
     map sample_cell [ascii ''60'', ascii ''9000'', yishou, shi]"
  by (simp only: marked_cells_def below_def sample_f_def node.case cells_below_Cons
        cells_of_cells)
     (simp add: data_cell_def ascii_eq)

lemma marked_cells_g:
  "marked_cells sample_g =
     [sample_cell (ascii ''A107''), sample_cell (ascii ''5''), sample_cell (ascii ''9000''),
      Element (ascii ''td'') [ascii ''el-table__cell'', ascii ''is-leaf'']
        [Element (ascii ''div'') [ascii ''cell''] [Text yishou],
         Element (ascii ''table'') [] [Element (ascii ''tr'') [] [sample_cell shi]]],
      sample_cell shi]"
  by (simp add: marked_cells_def below_def sample_g_def sample_cell_def data_cell_def ascii_eq)

lemma cell_text_outer:
  "cell_text (Element (ascii ''td'') [ascii ''el-table__cell'', ascii ''is-leaf'']
        [Element (ascii ''div'') [ascii ''cell''] [Text yishou],
         Element (ascii ''table'') [] [Element (ascii ''tr'') [] [sample_cell shi]]])
   = Some yishou"
  by (simp add: cell_text_def below_def wrapper_def get_text_def strings_of_def ascii_eq
        py_strip_def is_space_def yishou_def)

lemma cell_text_bare:
  "cell_text (Element (ascii ''td'') [ascii ''el-table__cell''] [Text (ascii ''A106'')]) = None"
  by (simp add: cell_text_def below_def wrapper_def)

lemma strip_samples:
  "py_strip (ascii '' A101 '') = ascii ''A101''" "py_strip (ascii ''A104'') = ascii ''A104''"
  "py_strip (ascii ''A107'') = ascii ''A107''" "py_strip [32] = []"
  "py_strip (ascii ''89.5'' @ pingfangmi) = ascii ''89.5'' @ pingfangmi"
  "py_strip (ascii ''12000'') = ascii ''12000''" "py_strip (ascii ''9000'') = ascii ''9000''"
  "py_strip (ascii ''no'') = ascii ''no''" "py_strip (ascii ''abc'') = ascii ''abc''"
  "py_strip (ascii ''unsold'') = ascii ''unsold''" "py_strip (ascii ''5'') = ascii ''5''"
  "py_strip yishou = yishou" "py_strip shi = shi"
  by (simp_all add: py_strip_def is_space_def ascii_def pingfangmi_def yishou_def shi_def)

lemma accepted_samples:
  "row_accepted (sample_row sample_a)" "\<not> row_accepted (sample_row sample_b)"
  "\<not> row_accepted (sample_row sample_c)" "row_accepted (sample_row sample_d)"
  "\<not> row_accepted sample_e" "\<not> row_accepted sample_f" "row_accepted sample_g"
  by (simp_all add: row_accepted_def unit_id_def marked_cells_sample marked_cells_e
        marked_cells_f marked_cells_g cell_text_sample cell_text_bare sample_a_def sample_b_def
        sample_c_def sample_d_def strip_samples ascii_not_empty)

lemma kept_samples:
  "filter row_accepted (data_rows sample_soup_table) =
     [sample_row sample_a, sample_g, sample_row sample_d]"
  by (simp add: data_rows_sample_table accepted_samples)

lemma unit_record_samples:
  "unit_record (sample_row sample_a) =
     [(fangjian_hao, ascii ''A101''), (jianzhu_mianji, ascii ''89.5'' @ pingfangmi),
      (shenbao_danjia, ascii ''12000''), (shifou_chushou, yishou), (shifou_diya, ascii ''no'')]"
  "unit_record sample_g =
     [(fangjian_hao, ascii ''A107''), (jianzhu_mianji, ascii ''5''),
      (shenbao_danjia, ascii ''9000''), (shifou_chushou, yishou), (shifou_diya, shi)]"
  "unit_record (sample_row sample_d) =
     [(fangjian_hao, ascii ''A104''), (jianzhu_mianji, ascii ''abc''),
      (shenbao_danjia, ascii ''9000''), (shifou_chushou, ascii ''unsold''), (shifou_diya, shi)]"
  by (simp_all add: unit_record_def unit_keys_def marked_cells_sample marked_cells_g
        cell_text_sample cell_text_outer sample_a_def sample_d_def strip_samples)

theorem rows_kept_iff_accepted_witness:
  "row_loop (table_rows sample_soup_table) [] =
     Inr [[(fangjian_hao, ascii ''A101''), (jianzhu_mianji, ascii ''89.5'' @ pingfangmi),
           (shenbao_danjia, ascii ''12000''), (shifou_chushou, yishou),
           (shifou_diya, ascii ''no'')],
          [(fangjian_hao, ascii ''A107''), (jianzhu_mianji, ascii ''5''),
           (shenbao_danjia, ascii ''9000''), (shifou_chushou, yishou), (shifou_diya, shi)],
          [(fangjian_hao, ascii ''A104''), (jianzhu_mianji, ascii ''abc''),
           (shenbao_danjia, ascii ''9000''), (shifou_chushou, ascii ''unsold''),
           (shifou_diya, shi)]] \<and>
   (\<exists>r. extract_from_soup (sample_env sample_soup_table) sample_soup_table = Inr r \<and>
        length (r_house_details r) = 3)"
proof -
  note t = rows_kept_iff_accepted [of sample_soup_table "sample_env sample_soup_table"]
  from t have a: "row_loop (table_rows sample_soup_table) [] =
      Inr (map unit_record [sample_row sample_a, sample_g, sample_row sample_d])"
    by (simp add: kept_samples)
  from t obtain r where
    "extract_from_soup (sample_env sample_soup_table) sample_soup_table = Inr r"
    "r_house_details r = map unit_record [sample_row sample_a, sample_g, sample_row sample_d]"
    by (auto simp: kept_samples)
  then have b: "\<exists>r. extract_from_soup (sample_env sample_soup_table) sample_soup_table = Inr r \<and>
        length (r_house_details r) = 3"
    by simp
  from a b show ?thesis by (simp add: unit_record_samples)
qed

section \<open>Counting sold and mortgaged units\<close>

text \<open>
  Claim C10. A unit adds one to the sold count exactly when its sale status is the string
  "sold" itself, and one to the mortgaged count exactly when its mortgage status is the
  string "yes" itself; with any other value, a missing field or a longer text among them,
  it adds nothing to either and one to the unsold count. The counts of the empty list are
  zero, so these equations fix the three counts of every list of units.
\<close>

theorem exact_status_counts:
  "n_sold (build_stats w []) = 0 \<and> n_mortgaged (build_stats w []) = 0 \<and>
   n_unsold (build_stats w []) = 0 \<and>
   n_sold (build_stats w (hs @ [h])) =
     n_sold (build_stats w hs) + (if dict_get h shifou_chushou = Some yishou then 1 else 0) \<and>
   n_mortgaged (build_stats w (hs @ [h])) =
     n_mortgaged (build_stats w hs) + (if dict_get h shifou_diya = Some shi then 1 else 0) \<and>
   n_unsold (build_stats w (hs @ [h])) =
     n_unsold (build_stats w hs) + (if dict_get h shifou_chushou = Some yishou then 0 else 1)"
  by (simp add: build_stats_def sold_houses_def mortgaged_houses_def total_houses_def)

theorem exact_status_counts_witness:
  "n_sold (build_stats (sample_env []) ([] @ [[(shifou_chushou, yishou @ ascii ''!'')]])) = 0 \<and>
   n_mortgaged (build_stats (sample_env []) ([] @ [[(shifou_chushou, yishou @ ascii ''!'')]])) = 0 \<and>
   n_unsold (build_stats (sample_env []) ([] @ [[(shifou_chushou, yishou @ ascii ''!'')]])) = 1"
  using exact_status_counts [of "sample_env []" "[]" "[(shifou_chushou, yishou @ ascii ''!'')]"]
  by (simp add: dict_get_def shifou_chushou_def shifou_diya_def ascii_not_empty)

section \<open>The area of a unit\<close>

lemma area_step_value:
  "area_step w house tot =
     (case dict_get house jianzhu_mianji of
        None \<Rightarrow> tot
      | Some t \<Rightarrow>
          (case (if t = [] then None else py_float w (py_remove pingfangmi t)) of
             Some v \<Rightarrow> f_add w tot v
           | None \<Rightarrow> tot))"
  by (simp add: area_step_def dict_get_default_def Let_def py_remove_absent
        split: option.splits)

lemma remove_unit_sample: "py_remove pingfangmi (ascii ''89.5'' @ pingfangmi) = ascii ''89.5''"
  by (simp add: pingfangmi_def ascii_def)

lemma remove_unit_abc: "py_remove pingfangmi (ascii ''abc'') = ascii ''abc''"
  by (simp add: pingfangmi_def ascii_def)

lemma remove_unit_front: "py_remove pingfangmi (pingfangmi @ ascii ''5'') = ascii ''5''"
  by (simp add: pingfangmi_def ascii_def)

text \<open>
  Claim C4, as stated, fails: the unit of measure is removed wherever it stands in the
  area text, not only at its end. An area text that starts with the unit of measure and
  goes on with the numeral 5 adds 5 to the total, where removing a suffix leaves the text
  as it is, which is not a number, and adds nothing.
\<close>

theorem area_suffix_counterexample:
  "area_step (sample_env []) [(jianzhu_mianji, pingfangmi @ ascii ''5'')] 0 = 5 \<and>
   area_by_suffix (sample_env []) [(jianzhu_mianji, pingfangmi @ ascii ''5'')] 0 = 0 \<and>
   area_step (sample_env []) [(jianzhu_mianji, pingfangmi @ ascii ''5'')] 0 \<noteq>
     area_by_suffix (sample_env []) [(jianzhu_mianji, pingfangmi @ ascii ''5'')] 0"
proof -
  have "strip_suffix pingfangmi (pingfangmi @ ascii ''5'') = pingfangmi @ ascii ''5''"
    by (simp add: strip_suffix_def endswith_def pingfangmi_def ascii_def suffix_def)
  moreover have "sample_float (pingfangmi @ ascii ''5'') = None"
    by (simp add: sample_float_def pingfangmi_def ascii_def)
  moreover have "sample_float (ascii ''5'') = Some 5"
    by (simp add: sample_float_def ascii_def)
  ultimately show ?thesis
    by (simp add: area_step_value area_by_suffix_def dict_get_default_def dict_get_def
          remove_unit_front sample_env_def ascii_not_empty)
qed

lemma area_loop_snoc: "area_loop w (hs @ [h]) acc = area_step w h (area_loop w hs acc)"
  by (induction hs arbitrary: acc) simp_all

lemma total_area_snoc: "total_area w (hs @ [h]) = area_step w h (total_area w hs)"
  by (simp add: total_area_def area_loop_snoc)

lemma area_total_of_result:
  "\<exists>r. extract_from_soup w soup = Inr r \<and>
       area_total (r_stats r) = f_format2 w (total_area w (r_house_details r)) @ pingfangmi"
proof -
  obtain hs where "row_loop (table_rows soup) [] = Inr hs"
    using row_loop_total by blast
  then show ?thesis by (simp add: extract_from_soup_def build_stats_def)
qed

text \<open>
  Claim C4, amended. The total area starts from zero and each unit of the list, in order,
  adds its contribution: the area text of the unit has every occurrence of the unit of
  measure removed and the rest is given to \<open>float\<close>; the value is added to the running
  total, and when \<open>float\<close> rejects the text, or the area is missing or empty, the total is
  left as it is. So a unit whose area is "89.5" followed by the unit of measure adds what
  \<open>float\<close> makes of "89.5", a unit whose area is "abc" adds nothing, and the extraction
  returns a result whatever the areas are, with the total of its units, formatted, as its
  total area.
\<close>

theorem area_contribution:
  "total_area w [] = f_zero w \<and>
   total_area w (hs @ [h]) =
     (case dict_get h jianzhu_mianji of
        None \<Rightarrow> total_area w hs
      | Some t \<Rightarrow>
          (case (if t = [] then None else py_float w (py_remove pingfangmi t)) of
             Some v \<Rightarrow> f_add w (total_area w hs) v
           | None \<Rightarrow> total_area w hs)) \<and>
   (py_float w (ascii ''89.5'') = Some v \<longrightarrow>
      total_area w (hs @ [[(jianzhu_mianji, ascii ''89.5'' @ pingfangmi)]])
        = f_add w (total_area w hs) v) \<and>
   (py_float w (ascii ''abc'') = None \<longrightarrow>
      total_area w (hs @ [[(jianzhu_mianji, ascii ''abc'')]]) = total_area w hs) \<and>
   (\<exists>r. extract_from_soup w soup = Inr r \<and>
        area_total (r_stats r) = f_format2 w (total_area w (r_house_details r)) @ pingfangmi)"
proof -
  have a: "total_area w [] = f_zero w"
    by (simp add: total_area_def)
  have b: "total_area w (hs @ [h]) =
     (case dict_get h jianzhu_mianji of
        None \<Rightarrow> total_area w hs
      | Some t \<Rightarrow>
          (case (if t = [] then None else py_float w (py_remove pingfangmi t)) of
             Some v \<Rightarrow> f_add w (total_area w hs) v
           | None \<Rightarrow> total_area w hs))" for h
    by (simp only: total_area_snoc area_step_value)
  have c: "py_float w (ascii ''89.5'') = Some v \<longrightarrow>
      total_area w (hs @ [[(jianzhu_mianji, ascii ''89.5'' @ pingfangmi)]])
        = f_add w (total_area w hs) v"
    by (simp add: b dict_get_def remove_unit_sample ascii_not_empty)
  have d: "py_float w (ascii ''abc'') = None \<longrightarrow>
      total_area w (hs @ [[(jianzhu_mianji, ascii ''abc'')]]) = total_area w hs"
    by (simp add: b dict_get_def remove_unit_abc ascii_not_empty)
  show ?thesis by (intro conjI a b c d area_total_of_result)
qed

lemma sample_units:
  "\<exists>r. extract_from_soup (sample_env sample_soup_table) sample_soup_table = Inr r \<and>
       r_house_details r =
         map unit_record [sample_row sample_a, sample_g, sample_row sample_d]"
  by (simp add: extract_from_soup_def row_loop_value table_rows_data_rows kept_samples)

lemma sample_floats:
  "py_float (sample_env soup) (ascii ''89.5'') = Some (179 / 2)"
  "py_float (sample_env soup) (ascii ''5'') = Some 5"
  "py_float (sample_env soup) (ascii ''abc'') = None"
  by (simp_all add: sample_env_def sample_float_def ascii_eq)

lemma remove_unit_five: "py_remove pingfangmi (ascii ''5'') = ascii ''5''"
  by (simp add: pingfangmi_def ascii_def)

lemma sample_total:
  "total_area (sample_env soup)
     (map unit_record [sample_row sample_a, sample_g, sample_row sample_d]) = 189 / 2"
proof -
  have add: "f_add (sample_env soup) a b = a + b" "f_zero (sample_env soup) = 0" for a b
    by (simp_all add: sample_env_def)
  show ?thesis
    by (simp add: total_area_def area_step_value unit_record_samples dict_get_def
          unit_keys_distinct remove_unit_sample remove_unit_abc remove_unit_five sample_floats
          ascii_not_empty add)
qed

theorem area_contribution_witness:
  "total_area (sample_env []) ([] @ [[(jianzhu_mianji, ascii ''89.5'' @ pingfangmi)]])
     = 179 / 2 \<and>
   total_area (sample_env [])
     ([[(jianzhu_mianji, ascii ''89.5'' @ pingfangmi)]] @ [[(jianzhu_mianji, ascii ''abc'')]])
     = 179 / 2 \<and>
   (\<exists>r. extract_from_soup (sample_env sample_soup_table) sample_soup_table = Inr r \<and>
        total_area (sample_env sample_soup_table) (r_house_details r) = 189 / 2)"
proof -
  let ?E = "sample_env []"
  note t1 = area_contribution [THEN conjunct1]
  note t3 = area_contribution [THEN conjunct2, THEN conjunct2, THEN conjunct1, rule_format]
  note t4 = area_contribution [THEN conjunct2, THEN conjunct2, THEN conjunct2, THEN conjunct1,
      rule_format]
  have z: "f_add ?E (f_zero ?E) (179 / 2) = 179 / 2"
    by (simp add: sample_env_def)
  have "total_area ?E ([] @ [[(jianzhu_mianji, ascii ''89.5'' @ pingfangmi)]])
      = f_add ?E (total_area ?E []) (179 / 2)"
    by (rule t3) (rule sample_floats)
  with t1 [of ?E] z
  have 1: "total_area ?E ([] @ [[(jianzhu_mianji, ascii ''89.5'' @ pingfangmi)]]) = 179 / 2"
    by (simp only:)
  have "total_area ?E
     ([[(jianzhu_mianji, ascii ''89.5'' @ pingfangmi)]] @ [[(jianzhu_mianji, ascii ''abc'')]])
     = total_area ?E [[(jianzhu_mianji, ascii ''89.5'' @ pingfangmi)]]"
    by (rule t4) (rule sample_floats)
  with 1 have 2: "total_area ?E
     ([[(jianzhu_mianji, ascii ''89.5'' @ pingfangmi)]] @ [[(jianzhu_mianji, ascii ''abc'')]])
     = 179 / 2"
    by simp
  from sample_units sample_total [of sample_soup_table]
  have 3: "\<exists>r. extract_from_soup (sample_env sample_soup_table) sample_soup_table = Inr r \<and>
        total_area (sample_env sample_soup_table) (r_house_details r) = 189 / 2"
    by auto
  from 1 2 3 show ?thesis by (intro conjI)
qed

section \<open>Pairing a label with its content\<close>

lemma find_skips:
  "list_all (\<lambda>n. \<not> p n) pre \<Longrightarrow> p c \<Longrightarrow> List.find p (pre @ c # post) = Some c"
  by (induction pre) simp_all

lemma find_none: "list_all (\<lambda>n. \<not> p n) ns \<Longrightarrow> List.find p ns = None"
  by (induction ns) simp_all

lemma marker_in_itself: "has_marker (ascii (c # cs)) (ascii (c # cs))"
  by (simp add: has_marker_def py_in_sublist ascii_not_empty)

lemma is_content_sample: "is_content (sample_content t)"
  by (simp add: is_content_def sample_content_def is_tag_fn_def class_fn_def content_marker_def
        marker_in_itself)

lemma is_label_sample: "is_label (sample_label t)"
  by (simp add: is_label_def sample_label_def is_tag_fn_def class_fn_def label_marker_def
        marker_in_itself)

lemma plain_not_marked: "\<not> is_content sample_plain" "\<not> is_label sample_plain"
  by (simp_all add: is_content_def is_label_def sample_plain_def is_tag_fn_def class_fn_def
        has_marker_def)

lemma markers_apart:
  "\<not> py_in label_marker content_marker" "\<not> py_in content_marker label_marker"
  by (simp_all add: label_marker_def content_marker_def ascii_def)

lemma text_not_label: "\<not> is_label (Text s)"
  by (simp add: is_label_def is_tag_fn_def)

lemma content_not_label: "\<not> is_label (sample_content t)"
  by (simp add: is_label_def sample_content_def is_tag_fn_def class_fn_def has_marker_def
        markers_apart)

lemma label_not_content: "\<not> is_content (sample_label t)"
  by (simp add: is_content_def sample_label_def is_tag_fn_def class_fn_def has_marker_def
        markers_apart)

lemma get_text_samples:
  "get_text (sample_label t) = py_strip t" "get_text (sample_content t) = py_strip t"
  by (simp_all add: get_text_def sample_label_def sample_content_def strings_of_def)

lemma strip_names:
  "py_strip xiangmu_mingcheng = xiangmu_mingcheng"
  "py_strip yangguang_huayuan = yangguang_huayuan"
  by (simp_all add: py_strip_def is_space_def xiangmu_mingcheng_def yangguang_huayuan_def)

lemma assign_project: "assign_field xiangmu_mingcheng v bi = dict_set xiangmu_mingcheng v bi"
  by (simp add: assign_field_def py_in_sublist)

text \<open>
  Claim C2, as stated, fails: the content element need not be adjacent to the label. With
  a \<open>span\<close> without the content marker between the project-name label and a content
  element, the immediate next sibling element is no content element, and yet the label
  stores the text of the content element after it.
\<close>

theorem adjacent_pairing_counterexample:
  "immediate_content [sample_plain, sample_content yangguang_huayuan] = None \<and>
   label_step (sample_label xiangmu_mingcheng,
               [sample_plain, sample_content yangguang_huayuan]) []
     = [(xiangmu_mingcheng, yangguang_huayuan)] \<and>
   extract_basic_info
     [sample_label xiangmu_mingcheng, sample_plain, sample_content yangguang_huayuan]
     = [(xiangmu_mingcheng, yangguang_huayuan)]"
proof -
  have "is_element sample_plain"
    by (simp add: is_element_def sample_plain_def)
  then have a: "immediate_content [sample_plain, sample_content yangguang_huayuan] = None"
    by (simp add: immediate_content_def plain_not_marked)
  have "find_next_sibling is_content [sample_plain, sample_content yangguang_huayuan]
      = Some (sample_content yangguang_huayuan)"
    by (simp add: find_next_sibling_def plain_not_marked is_content_sample)
  then have b: "label_step (sample_label xiangmu_mingcheng,
               [sample_plain, sample_content yangguang_huayuan]) []
     = [(xiangmu_mingcheng, yangguang_huayuan)]"
    by (simp add: label_step_def get_text_samples strip_names assign_project)
  have "label_elements
      [sample_label xiangmu_mingcheng, sample_plain, sample_content yangguang_huayuan]
      = [(sample_label xiangmu_mingcheng, [sample_plain, sample_content yangguang_huayuan])]"
    using is_label_sample [unfolded sample_label_def]
      content_not_label [unfolded sample_content_def] text_not_label
      plain_not_marked(2) [unfolded sample_plain_def]
    by (simp add: label_elements_def find_all_ctx_def sample_label_def sample_content_def
          sample_plain_def)
  with b have c: "extract_basic_info
     [sample_label xiangmu_mingcheng, sample_plain, sample_content yangguang_huayuan]
     = [(xiangmu_mingcheng, yangguang_huayuan)]"
    by (simp add: extract_basic_info_def title_fallback_def dict_get_def)
  from a b c show ?thesis by (intro conjI)
qed

text \<open>
  Claim C2, amended. A label is paired with the nearest following sibling that is a
  \<open>span\<close> carrying the content marker, whatever siblings without the marker stand
  between them; when no following sibling is such a \<open>span\<close> the label contributes
  nothing. The pairing looks at the following siblings of the label only.
\<close>

theorem nearest_content_pairing:
  "(list_all (\<lambda>n. \<not> is_content n) following \<longrightarrow>
      label_step (l, following) bi = bi) \<and>
   (list_all (\<lambda>n. \<not> is_content n) pre \<and> is_content c \<longrightarrow>
      label_step (l, pre @ c # post) bi = assign_field (get_text l) (get_text c) bi)"
  by (simp add: label_step_def find_next_sibling_def find_skips find_none)

theorem nearest_content_pairing_witness:
  "label_step (sample_label xiangmu_mingcheng, [sample_plain]) [] = [] \<and>
   label_step (sample_label xiangmu_mingcheng,
               [sample_plain] @ sample_content yangguang_huayuan # []) []
     = [(xiangmu_mingcheng, yangguang_huayuan)]"
  using nearest_content_pairing [of "[sample_plain]" "sample_label xiangmu_mingcheng" "[]"
      "[sample_plain]" "sample_content yangguang_huayuan" "[]"]
  by (simp add: plain_not_marked is_content_sample get_text_samples strip_names assign_project)

section \<open>Matching labels to fields\<close>

lemma assign_field_matched:
  "assign_field label_text content_text bi =
     (case matched_key label_text of None \<Rightarrow> bi | Some k \<Rightarrow> dict_set k content_text bi)"
  by (simp add: assign_field_def matched_key_def field_names_def)

lemma label_step_get:
  "dict_get (label_step lf bi) k =
     (case map_of (label_assignment lf) k of None \<Rightarrow> dict_get bi k | Some v \<Rightarrow> Some v)"
  by (simp add: label_step_def label_assignment_def assign_field_matched dict_get_set
        split: option.splits)

lemma label_assignment_short: "length (label_assignment lf) \<le> 1"
  by (simp add: label_assignment_def split: option.splits)

lemma rev_label_assignment: "rev (label_assignment lf) = label_assignment lf"
  using label_assignment_short [of lf] by (cases "label_assignment lf") auto

lemma label_loop_get:
  "dict_get (label_loop ls bi) k =
     (case map_of (rev (label_assignments ls)) k of None \<Rightarrow> dict_get bi k | Some v \<Rightarrow> Some v)"
proof (induction ls arbitrary: bi)
  case Nil
  show ?case by (simp add: label_assignments_def)
next
  case (Cons lf ls)
  have "rev (label_assignments (lf # ls)) = rev (label_assignments ls) @ label_assignment lf"
    by (simp add: label_assignments_def rev_label_assignment)
  then show ?case
    by (simp add: Cons label_step_get map_add_def split: option.splits)
qed

lemma project_name_anywhere: "matched_key (pre @ xiangmu_mingcheng @ post) = Some xiangmu_mingcheng"
  by (simp add: matched_key_def field_names_def py_in_sublist)

lemma location_in_both:
  "py_in fangwu_zuoluo (xiangmu_mingcheng @ fangwu_zuoluo)"
  by (simp add: py_in_sublist)

text \<open>
  Claim C5, as stated, fails: a label does not populate every field whose name it
  contains. A label text made of the project-name key followed by the location key
  contains the location key, yet only the project name is stored.
\<close>

theorem every_match_counterexample:
  "py_in fangwu_zuoluo (xiangmu_mingcheng @ fangwu_zuoluo) \<and>
   assign_field (xiangmu_mingcheng @ fangwu_zuoluo) yangguang_huayuan []
     = [(xiangmu_mingcheng, yangguang_huayuan)] \<and>
   dict_get (assign_field (xiangmu_mingcheng @ fangwu_zuoluo) yangguang_huayuan [])
     fangwu_zuoluo = None \<and>
   extract_basic_info
     [sample_label (xiangmu_mingcheng @ fangwu_zuoluo), sample_content yangguang_huayuan]
     = [(xiangmu_mingcheng, yangguang_huayuan)]"
proof -
  have m: "matched_key (xiangmu_mingcheng @ fangwu_zuoluo) = Some xiangmu_mingcheng"
    using project_name_anywhere [of "[]" fangwu_zuoluo] by simp
  have "fangwu_zuoluo \<noteq> xiangmu_mingcheng"
    by (simp add: fangwu_zuoluo_def xiangmu_mingcheng_def)
  with m have a: "assign_field (xiangmu_mingcheng @ fangwu_zuoluo) yangguang_huayuan []
     = [(xiangmu_mingcheng, yangguang_huayuan)] \<and>
   dict_get (assign_field (xiangmu_mingcheng @ fangwu_zuoluo) yangguang_huayuan [])
     fangwu_zuoluo = None"
    by (simp add: assign_field_matched dict_get_def)
  have st: "py_strip (xiangmu_mingcheng @ fangwu_zuoluo) = xiangmu_mingcheng @ fangwu_zuoluo"
    by (simp add: py_strip_def is_space_def xiangmu_mingcheng_def fangwu_zuoluo_def)
  have "label_elements
      [sample_label (xiangmu_mingcheng @ fangwu_zuoluo), sample_content yangguang_huayuan]
      = [(sample_label (xiangmu_mingcheng @ fangwu_zuoluo),
          [sample_content yangguang_huayuan])]"
    using is_label_sample [unfolded sample_label_def]
      content_not_label [unfolded sample_content_def] text_not_label
    by (simp add: label_elements_def find_all_ctx_def sample_label_def sample_content_def)
  with a have b: "extract_basic_info
     [sample_label (xiangmu_mingcheng @ fangwu_zuoluo), sample_content yangguang_huayuan]
     = [(xiangmu_mingcheng, yangguang_huayuan)]"
    by (simp add: extract_basic_info_def title_fallback_def dict_get_def label_step_def
          find_next_sibling_def is_content_sample get_text_samples st strip_names)
  from location_in_both a b show ?thesis by blast
qed

text \<open>
  Claim C5, amended. Matching is by containment, and a label with a content element
  populates one field at most: the first of the five names, in the order project name,
  house location, sales area, licensed use, permit number, that occurs anywhere in its
  stripped text. So a text with the project-name key anywhere in it, as the key followed
  by a colon, selects the project name. After the loop a field holds the value of the last
  label in document order that selected it, and the value it had before if none did.
\<close>

theorem first_name_last_label:
  "assign_field label_text content_text bi =
     (case matched_key label_text of None \<Rightarrow> bi | Some k \<Rightarrow> dict_set k content_text bi) \<and>
   matched_key (pre @ xiangmu_mingcheng @ post) = Some xiangmu_mingcheng \<and>
   matched_key (xiangmu_mingcheng @ ascii '':'') = Some xiangmu_mingcheng \<and>
   dict_get (label_loop ls bi) k =
     (case map_of (rev (label_assignments ls)) k of None \<Rightarrow> dict_get bi k | Some v \<Rightarrow> Some v)"
  using project_name_anywhere [of "[]" "ascii '':''"]
  by (simp add: assign_field_matched project_name_anywhere label_loop_get)

theorem first_name_last_label_witness:
  "label_assignments (label_elements sample_soup_labels) =
     [(xiangmu_mingcheng, ascii ''A''), (xiangmu_mingcheng, yangguang_huayuan)] \<and>
   dict_get (label_loop (label_elements sample_soup_labels) []) xiangmu_mingcheng
     = Some yangguang_huayuan"
proof -
  have le: "label_elements sample_soup_labels =
      [(sample_label (xiangmu_mingcheng @ ascii '':''),
          [sample_content (ascii ''A''), sample_label xiangmu_mingcheng,
           sample_content yangguang_huayuan]),
       (sample_label xiangmu_mingcheng, [sample_content yangguang_huayuan])]"
    using is_label_sample [unfolded sample_label_def]
      content_not_label [unfolded sample_content_def] text_not_label
    by (simp add: label_elements_def sample_soup_labels_def find_all_ctx_def sample_label_def
          sample_content_def)
  have st: "py_strip (xiangmu_mingcheng @ ascii '':'') = xiangmu_mingcheng @ ascii '':''"
    "py_strip (ascii ''A'') = ascii ''A''"
    by (simp_all add: py_strip_def is_space_def xiangmu_mingcheng_def ascii_def)
  have la: "label_assignments (label_elements sample_soup_labels) =
     [(xiangmu_mingcheng, ascii ''A''), (xiangmu_mingcheng, yangguang_huayuan)]"
    using project_name_anywhere [of "[]" "ascii '':''"] project_name_anywhere [of "[]" "[]"]
    by (simp add: le label_assignments_def label_assignment_def find_next_sibling_def
          is_content_sample label_not_content get_text_samples st strip_names)
  from first_name_last_label [of _ _ "[]" _ _ "label_elements sample_soup_labels"
      xiangmu_mingcheng] la
  show ?thesis by (simp add: dict_get_def)
qed

section \<open>The project name from the title\<close>

lemma find_title: "find_first (is_tag (ascii ''title'')) soup = page_title soup"
proof -
  have "is_tag (ascii ''title'') =
      (\<lambda>n. case n of Element t cs ch \<Rightarrow> t = ascii ''title'' | _ \<Rightarrow> False)"
    by (rule ext) (simp add: is_tag_def)
  then show ?thesis
    by (simp add: find_first_def find_all_filter page_title_def)
qed

lemma last_dropWhile: "dropWhile P xs \<noteq> [] \<Longrightarrow> last (dropWhile P xs) = last xs"
  by (induction xs) (auto split: if_splits)

lemma strip_ends:
  assumes "py_strip s \<noteq> []"
  shows "\<not> is_space (hd (py_strip s)) \<and> \<not> is_space (last (py_strip s))"
proof -
  let ?z = "dropWhile is_space s"
  let ?y = "dropWhile is_space (rev ?z)"
  from assms have y: "?y \<noteq> []" by (simp add: py_strip_def)
  have z: "?z \<noteq> []"
  proof
    assume "?z = []"
    then have "?y = []" by (simp only: rev.simps dropWhile.simps)
    with y show False ..
  qed
  have "last (py_strip s) = hd ?y"
    using y by (simp add: py_strip_def last_rev)
  moreover have "\<not> is_space (hd ?y)"
    using y by (rule hd_dropWhile)
  moreover have "hd (py_strip s) = last ?y"
    using y by (simp add: py_strip_def hd_rev)
  moreover have "last ?y = hd ?z"
    using y z by (simp add: last_dropWhile last_rev)
  moreover have "\<not> is_space (hd ?z)"
    using z by (rule hd_dropWhile)
  ultimately show ?thesis by simp
qed

lemma strip_inside:
  "\<exists>a b. s = a @ py_strip s @ b \<and> list_all is_space a \<and> list_all is_space b"
proof -
  let ?z = "dropWhile is_space s"
  let ?a = "takeWhile is_space s"
  let ?b = "rev (takeWhile is_space (rev ?z))"
  have "rev (takeWhile is_space (rev ?z) @ dropWhile is_space (rev ?z)) = rev (rev ?z)"
    by (simp only: takeWhile_dropWhile_id)
  then have "rev (dropWhile is_space (rev ?z)) @ ?b = ?z"
    by (simp only: rev_append rev_rev_ident)
  then have "?z = py_strip s @ ?b"
    by (simp only: py_strip_def)
  then have "s = ?a @ py_strip s @ ?b"
    using takeWhile_dropWhile_id [of is_space s] by simp
  moreover have "list_all is_space ?a" "list_all is_space ?b"
    by (auto simp: list_all_iff dest: set_takeWhileD)
  ultimately show ?thesis by blast
qed

lemma title_text: "get_text (sample_title t) = py_strip t"
  by (simp add: get_text_def sample_title_def strings_of_def)

lemma sample_name_not_empty: "yangguang_huayuan \<noteq> []"
  by (simp add: yangguang_huayuan_def)

lemma page_title_samples:
  "page_title sample_soup_title = Some (sample_title (yangguang_huayuan @ title_phrase))"
  "page_title sample_soup_page = Some (sample_title sample_title_text)"
  by (simp_all add: page_title_def sample_soup_title_def sample_soup_page_def sample_title_def
        ascii_eq)

lemma title_sample_facts:
  "py_strip (yangguang_huayuan @ title_phrase) = yangguang_huayuan @ title_phrase"
  "py_remove title_phrase (yangguang_huayuan @ title_phrase) = yangguang_huayuan"
  "py_strip sample_title_text = yangguang_huayuan @ 32 # title_phrase"
  "py_remove title_phrase (yangguang_huayuan @ 32 # title_phrase) = yangguang_huayuan @ [32]"
  "py_strip (yangguang_huayuan @ [32]) = yangguang_huayuan"
  "py_in title_phrase (yangguang_huayuan @ title_phrase)"
  "py_in title_phrase (yangguang_huayuan @ 32 # title_phrase)"
  by (simp_all add: py_strip_def is_space_def yangguang_huayuan_def title_phrase_def
        sample_title_text_def)

lemma no_labels_in_title:
  "label_elements sample_soup_title = []" "label_elements sample_soup_page = []"
  by (simp_all add: label_elements_def find_all_ctx_def sample_soup_title_def
        sample_soup_page_def sample_title_def text_not_label is_label_def is_tag_fn_def ascii_eq)

lemma title_fallback_samples:
  "title_fallback sample_soup_title [] = [(xiangmu_mingcheng, yangguang_huayuan)]"
  "title_fallback sample_soup_page [] = [(xiangmu_mingcheng, yangguang_huayuan)]"
  by (simp_all add: title_fallback_def find_title page_title_samples title_text
        title_sample_facts strip_names dict_get_def Let_def sample_name_not_empty)

text \<open>
  Claim C6. When the labels have stored a project name the fallback changes nothing. When
  they have not, and the page title (the first \<open>title\<close> element of the document) has a
  text that contains the fixed phrase and, with the phrase removed and the rest stripped,
  is not empty, the project name becomes that rest. Whenever the fallback supplies a
  project name, it is such a rest: it is not empty, has no white space at either end, and
  is what remains of the title without the phrase once white space around it is dropped.
  A page with no label and the title made of the sample name followed by the phrase gets
  the sample name as project name.
\<close>

theorem title_fallback_rule:
  "(dict_get bi xiangmu_mingcheng \<noteq> None \<longrightarrow> title_fallback soup bi = bi) \<and>
   (dict_get bi xiangmu_mingcheng = None \<and>
    page_title soup = Some t \<and>
    py_in title_phrase (get_text t) \<and>
    py_strip (py_remove title_phrase (get_text t)) \<noteq> [] \<longrightarrow>
      title_fallback soup bi =
        dict_set xiangmu_mingcheng (py_strip (py_remove title_phrase (get_text t))) bi) \<and>
   (dict_get bi xiangmu_mingcheng = None \<and>
    dict_get (title_fallback soup bi) xiangmu_mingcheng = Some v \<longrightarrow>
      v \<noteq> [] \<and> \<not> is_space (hd v) \<and> \<not> is_space (last v) \<and>
      (\<exists>t a b. page_title soup = Some t \<and>
           py_in title_phrase (get_text t) \<and>
           v = py_strip (py_remove title_phrase (get_text t)) \<and>
           py_remove title_phrase (get_text t) = a @ v @ b \<and>
           list_all is_space a \<and> list_all is_space b)) \<and>
   extract_basic_info sample_soup_title = [(xiangmu_mingcheng, yangguang_huayuan)]"
proof -
  have a: "dict_get bi xiangmu_mingcheng \<noteq> None \<longrightarrow> title_fallback soup bi = bi"
    by (simp add: title_fallback_def)
  have b: "dict_get bi xiangmu_mingcheng = None \<and>
    page_title soup = Some t \<and>
    py_in title_phrase (get_text t) \<and>
    py_strip (py_remove title_phrase (get_text t)) \<noteq> [] \<longrightarrow>
      title_fallback soup bi =
        dict_set xiangmu_mingcheng (py_strip (py_remove title_phrase (get_text t))) bi"
    by (simp add: title_fallback_def find_title Let_def)
  have c: "dict_get bi xiangmu_mingcheng = None \<and>
    dict_get (title_fallback soup bi) xiangmu_mingcheng = Some v \<longrightarrow>
      v \<noteq> [] \<and> \<not> is_space (hd v) \<and> \<not> is_space (last v) \<and>
      (\<exists>t a b. page_title soup = Some t \<and>
           py_in title_phrase (get_text t) \<and>
           v = py_strip (py_remove title_phrase (get_text t)) \<and>
           py_remove title_phrase (get_text t) = a @ v @ b \<and>
           list_all is_space a \<and> list_all is_space b)"
  proof (intro impI, elim conjE)
    assume none: "dict_get bi xiangmu_mingcheng = None"
      and some: "dict_get (title_fallback soup bi) xiangmu_mingcheng = Some v"
    from none some obtain t where t: "page_title soup = Some t"
      "py_in title_phrase (get_text t)"
      "v = py_strip (py_remove title_phrase (get_text t))" "v \<noteq> []"
      by (auto simp: title_fallback_def find_title Let_def dict_get_set
            split: option.splits if_splits)
    from strip_ends [of "py_remove title_phrase (get_text t)"] t
    have ends: "\<not> is_space (hd v) \<and> \<not> is_space (last v)" by simp
    from strip_inside [of "py_remove title_phrase (get_text t)"] t
    obtain a b where "py_remove title_phrase (get_text t) = a @ v @ b"
      "list_all is_space a" "list_all is_space b" by auto
    with t ends show "v \<noteq> [] \<and> \<not> is_space (hd v) \<and> \<not> is_space (last v) \<and>
      (\<exists>t a b. page_title soup = Some t \<and>
           py_in title_phrase (get_text t) \<and>
           v = py_strip (py_remove title_phrase (get_text t)) \<and>
           py_remove title_phrase (get_text t) = a @ v @ b \<and>
           list_all is_space a \<and> list_all is_space b)"
      by blast
  qed
  have d: "extract_basic_info sample_soup_title = [(xiangmu_mingcheng, yangguang_huayuan)]"
    by (simp add: extract_basic_info_def no_labels_in_title title_fallback_samples)
  show ?thesis by (intro conjI a b c d)
qed

theorem title_fallback_rule_witness:
  "title_fallback sample_soup_page [(xiangmu_mingcheng, ascii ''A'')]
     = [(xiangmu_mingcheng, ascii ''A'')] \<and>
   title_fallback sample_soup_page [] = [(xiangmu_mingcheng, yangguang_huayuan)] \<and>
   extract_basic_info sample_soup_page = [(xiangmu_mingcheng, yangguang_huayuan)] \<and>
   yangguang_huayuan \<noteq> [] \<and>
   \<not> is_space (hd yangguang_huayuan) \<and> \<not> is_space (last yangguang_huayuan)"
proof -
  let ?T = "sample_title sample_title_text"
  have h0: "dict_get [(xiangmu_mingcheng, ascii ''A'')] xiangmu_mingcheng \<noteq> None"
    by (simp add: dict_get_def)
  have h1: "dict_get [] xiangmu_mingcheng = None"
    by (simp add: dict_get_def)
  have h2: "page_title sample_soup_page = Some ?T"
    by (rule page_title_samples)
  have h3: "py_in title_phrase (get_text ?T)"
    by (simp add: title_text title_sample_facts)
  have h4: "py_strip (py_remove title_phrase (get_text ?T)) = yangguang_huayuan"
    by (simp add: title_text title_sample_facts)
  note r = title_fallback_rule [of _ sample_soup_page ?T yangguang_huayuan]
  have 1: "title_fallback sample_soup_page [(xiangmu_mingcheng, ascii ''A'')]
      = [(xiangmu_mingcheng, ascii ''A'')]"
    using r [of "[(xiangmu_mingcheng, ascii ''A'')]", THEN conjunct1] h0 by blast
  have "title_fallback sample_soup_page [] =
      dict_set xiangmu_mingcheng (py_strip (py_remove title_phrase (get_text ?T))) []"
    using r [of "[]", THEN conjunct2, THEN conjunct1] h1 h2 h3 h4 sample_name_not_empty
    by (simp only: simp_thms)
  then have 2: "title_fallback sample_soup_page [] = [(xiangmu_mingcheng, yangguang_huayuan)]"
    by (simp only: h4 dict_set.simps)
  then have g: "dict_get (title_fallback sample_soup_page []) xiangmu_mingcheng
      = Some yangguang_huayuan"
    by (simp add: dict_get_def)
  have 3: "yangguang_huayuan \<noteq> [] \<and>
      \<not> is_space (hd yangguang_huayuan) \<and> \<not> is_space (last yangguang_huayuan)"
    using r [of "[]", THEN conjunct2, THEN conjunct2, THEN conjunct1] h1 g by blast
  have 4: "extract_basic_info sample_soup_page = [(xiangmu_mingcheng, yangguang_huayuan)]"
    using 2 by (simp add: extract_basic_info_def no_labels_in_title)
  from 1 2 3 4 show ?thesis by (intro conjI) simp_all
qed

section \<open>Errors of the extraction\<close>

text \<open>
  Claim C7, as stated, fails: the diagnostic is printed inside the handler, and an
  exception raised by that \<open>print\<close> is not caught. Where the input cannot be read and
  standard output cannot take the diagnostic, the extraction does not return \<open>None\<close>:
  the exception of \<open>print\<close> reaches the caller.
\<close>

theorem handler_print_counterexample:
  "read_text garbled_env [] = Inl sample_error \<and>
   extract_house_sales_info garbled_env [] = ([], Inl encode_error)"
  by (simp add: extract_house_sales_info_def try_body_def garbled_env_def unreadable_env_def)

text \<open>
  Claim C7, amended. For every input the extraction does one of three things: it returns
  a result, printing nothing; it prints one diagnostic and returns \<open>None\<close>; or the printing
  of that diagnostic raises, and this exception leaves the function. An error while
  reading the file and an error of the parser never reach the caller themselves: each ends
  in the diagnostic and \<open>None\<close> when the diagnostic can be printed, and in the exception of
  \<open>print\<close> when it cannot. Once the file is read and parsed a result is returned: nothing
  in the rest of the body raises, and nothing is printed.
\<close>

theorem extraction_outcomes:
  "((\<exists>r. extract_house_sales_info w p = ([], Inr (Some r))) \<or>
    (\<exists>e. extract_house_sales_info w p = ([extract_error_prefix @ str_of_error e], Inr None)) \<or>
    (\<exists>e e'. print_error w (extract_error_prefix @ str_of_error e) = Some e' \<and>
            extract_house_sales_info w p = ([], Inl e'))) \<and>
   (read_text w p = Inl e \<and> print_error w (extract_error_prefix @ str_of_error e) = None \<longrightarrow>
      extract_house_sales_info w p = ([extract_error_prefix @ str_of_error e], Inr None)) \<and>
   (read_text w p = Inr html \<and> html_parser w html = Inl e \<and>
    print_error w (extract_error_prefix @ str_of_error e) = None \<longrightarrow>
      extract_house_sales_info w p = ([extract_error_prefix @ str_of_error e], Inr None)) \<and>
   (read_text w p = Inl e \<and> print_error w (extract_error_prefix @ str_of_error e) = Some e' \<longrightarrow>
      extract_house_sales_info w p = ([], Inl e')) \<and>
   (read_text w p = Inr html \<and> html_parser w html = Inl e \<and>
    print_error w (extract_error_prefix @ str_of_error e) = Some e' \<longrightarrow>
      extract_house_sales_info w p = ([], Inl e')) \<and>
   (read_text w p = Inr html \<and> html_parser w html = Inr soup \<longrightarrow>
      (\<exists>r. extract_house_sales_info w p = ([], Inr (Some r))))"
proof -
  have a: "(\<exists>r. extract_house_sales_info w p = ([], Inr (Some r))) \<or>
    (\<exists>e. extract_house_sales_info w p = ([extract_error_prefix @ str_of_error e], Inr None)) \<or>
    (\<exists>e e'. print_error w (extract_error_prefix @ str_of_error e) = Some e' \<and>
            extract_house_sales_info w p = ([], Inl e'))"
  proof (cases "try_body w p")
    case (Inr r)
    then show ?thesis by (simp add: extract_house_sales_info_def)
  next
    case (Inl x)
    then show ?thesis
      by (cases "print_error w (extract_error_prefix @ str_of_error x)")
         (auto simp: extract_house_sales_info_def)
  qed
  have b: "read_text w p = Inl e \<and>
      print_error w (extract_error_prefix @ str_of_error e) = None \<longrightarrow>
      extract_house_sales_info w p = ([extract_error_prefix @ str_of_error e], Inr None)"
    by (simp add: extract_house_sales_info_def try_body_def)
  have c: "read_text w p = Inr html \<and> html_parser w html = Inl e \<and>
    print_error w (extract_error_prefix @ str_of_error e) = None \<longrightarrow>
      extract_house_sales_info w p = ([extract_error_prefix @ str_of_error e], Inr None)"
    by (simp add: extract_house_sales_info_def try_body_def)
  have d: "read_text w p = Inl e \<and>
      print_error w (extract_error_prefix @ str_of_error e) = Some e' \<longrightarrow>
      extract_house_sales_info w p = ([], Inl e')"
    by (simp add: extract_house_sales_info_def try_body_def)
  have f: "read_text w p = Inr html \<and> html_parser w html = Inl e \<and>
    print_error w (extract_error_prefix @ str_of_error e) = Some e' \<longrightarrow>
      extract_house_sales_info w p = ([], Inl e')"
    by (simp add: extract_house_sales_info_def try_body_def)
  have g: "read_text w p = Inr html \<and> html_parser w html = Inr soup \<longrightarrow>
      (\<exists>r. extract_house_sales_info w p = ([], Inr (Some r)))"
    using extraction_succeeds by blast
  show ?thesis by (intro conjI a b c d f g)
qed

theorem extraction_outcomes_witness:
  "extract_house_sales_info unreadable_env []
     = ([extract_error_prefix @ ascii ''denied''], Inr None) \<and>
   extract_house_sales_info unparsable_env []
     = ([extract_error_prefix @ ascii ''bad markup''], Inr None) \<and>
   extract_house_sales_info (unparsable_env \<lparr> print_error := (\<lambda>line. Some encode_error) \<rparr>) []
     = ([], Inl encode_error) \<and>
   (\<exists>r. extract_house_sales_info (sample_env sample_soup_rows) [] = ([], Inr (Some r)))"
proof -
  note t = extraction_outcomes [THEN conjunct2]
  have 1: "extract_house_sales_info unreadable_env []
      = ([extract_error_prefix @ str_of_error sample_error], Inr None)"
    using t [of unreadable_env "[]" sample_error, THEN conjunct1]
    by (simp add: unreadable_env_def sample_env_def)
  have 2: "extract_house_sales_info unparsable_env []
      = ([extract_error_prefix @ str_of_error (ParserError (ascii ''bad markup''))], Inr None)"
    using t [of unparsable_env "[]" "ParserError (ascii ''bad markup'')" "[]",
        THEN conjunct2, THEN conjunct1]
    by (simp add: unparsable_env_def sample_env_def)
  have 3: "extract_house_sales_info
      (unparsable_env \<lparr> print_error := (\<lambda>line. Some encode_error) \<rparr>) [] = ([], Inl encode_error)"
    using t [of "unparsable_env \<lparr> print_error := (\<lambda>line. Some encode_error) \<rparr>" "[]"
        "ParserError (ascii ''bad markup'')" "[]" encode_error,
        THEN conjunct2, THEN conjunct2, THEN conjunct2, THEN conjunct1]
    by (simp add: unparsable_env_def sample_env_def)
  have 4: "\<exists>r. extract_house_sales_info (sample_env sample_soup_rows) [] = ([], Inr (Some r))"
    using t [of "sample_env sample_soup_rows" "[]" _ "[]" _ sample_soup_rows,
        THEN conjunct2, THEN conjunct2, THEN conjunct2, THEN conjunct2]
    by (simp add: sample_env_def)
  from 1 2 3 4 show ?thesis by (simp add: sample_error_def)
qed

section \<open>Saving\<close>

lemma save_body_error:
  "write_error w (save_path output_file) = Some e \<Longrightarrow> save_body w data output_file = Inl e"
  by (auto simp: save_body_def save_path_def write_file_def split: if_splits)

lemma not_json_samples:
  "\<not> endswith (ascii ''report'') (ascii ''.json'')"
  "\<not> endswith (ascii ''report'') (ascii ''.txt'')"
  "endswith (ascii ''out.json'') (ascii ''.json'')"
  by (simp_all add: endswith_def suffix_to_prefix ascii_def)

text \<open>
  Claim C9. A destination that ends in neither \<open>.json\<close> nor \<open>.txt\<close> is not refused: the
  save operation writes the JSON form of the data to the destination with \<open>.json\<close>
  appended. When that write goes through, this is the file written, and when the success
  message can be printed it reports the new path.
\<close>

theorem other_extension_json:
  "\<not> endswith output_file (ascii ''.json'') \<and> \<not> endswith output_file (ascii ''.txt'') \<longrightarrow>
     save_body w data output_file =
       write_file w (output_file @ ascii ''.json'') (Json_dump data) \<and>
     (write_error w (output_file @ ascii ''.json'') = None \<longrightarrow>
        s_written (save_to_file w data output_file) =
          Some (output_file @ ascii ''.json'', Json_dump data)) \<and>
     (write_error w (output_file @ ascii ''.json'') = None \<and>
      print_error w (save_ok_prefix @ output_file @ ascii ''.json'') = None \<longrightarrow>
        save_to_file w data output_file =
          \<lparr> s_printed = [save_ok_prefix @ output_file @ ascii ''.json''],
            s_written = Some (output_file @ ascii ''.json'', Json_dump data),
            s_raised = None \<rparr>)"
  by (simp add: save_to_file_def save_body_def write_file_def save_handler_def
        split: option.splits)

theorem other_extension_json_witness:
  "save_to_file (sample_env []) sample_data (ascii ''report'') =
     \<lparr> s_printed = [save_ok_prefix @ ascii ''report'' @ ascii ''.json''],
       s_written = Some (ascii ''report'' @ ascii ''.json'', Json_dump sample_data),
       s_raised = None \<rparr> \<and>
   s_written (save_to_file (sample_env []) sample_data (ascii ''report'')) =
     Some (ascii ''report'' @ ascii ''.json'', Json_dump sample_data)"
proof -
  have "write_error (sample_env []) (ascii ''report'' @ ascii ''.json'') = None"
    and "print_error (sample_env []) (save_ok_prefix @ ascii ''report'' @ ascii ''.json'') = None"
    by (simp_all add: sample_env_def)
  with other_extension_json [of "ascii ''report''" "sample_env []" sample_data]
    not_json_samples
  show ?thesis by blast
qed

section \<open>Errors of the write\<close>

lemma print_all_quiet:
  "(\<forall>line. print_error w line = None) \<Longrightarrow> print_all w ls = (ls, None)"
  by (induction ls) simp_all

lemma save_quiet:
  "(\<forall>line. print_error w line = None) \<Longrightarrow> s_raised (save_to_file w data output_file) = None"
  by (simp add: save_to_file_def save_handler_def split: sum.splits)

lemma extraction_quiet:
  "(\<forall>line. print_error w line = None) \<Longrightarrow> snd (extract_house_sales_info w p) \<noteq> Inl e"
  by (simp add: extract_house_sales_info_def split: sum.splits)

lemma area_loop_write_free:
  "area_loop (w\<lparr>write_error := we\<rparr>) hs acc = area_loop w hs acc"
  by (induction hs arbitrary: acc) (simp_all add: area_step_def Let_def split: option.splits)

lemma try_body_write_free: "try_body (w\<lparr>write_error := we\<rparr>) p = try_body w p"
  by (simp add: try_body_def extract_from_soup_def build_stats_def total_area_def
        area_loop_write_free)

lemma extraction_write_free:
  "extract_house_sales_info (w\<lparr>write_error := we\<rparr>) p = extract_house_sales_info w p"
  by (simp add: extract_house_sales_info_def try_body_write_free split: sum.splits)

lemma main_exit_quiet:
  assumes "\<forall>line. print_error w line = None"
  shows "exit_code (main w html_file output) =
     (if path_exists w html_file \<and>
         (\<exists>d. snd (extract_house_sales_info w html_file) = Inr (Some d))
      then 0 else 1)"
proof (cases "extract_house_sales_info w html_file")
  case (Pair out v)
  with extraction_quiet [OF assms, of html_file] have "\<And>e. v \<noteq> Inl e"
    by simp
  with Pair show ?thesis
    by (cases v)
       (auto simp: main_def main_save_def Let_def print_all_quiet [OF assms]
          save_quiet [OF assms] assms [rule_format] split: option.splits)
qed

lemma main_after_extraction:
  assumes "path_exists w f" and "print_error w (processing_message f) = None"
    and "extract_house_sales_info w f = (out, Inr (Some d))"
    and "print_all w (summary_messages d) = (out', None)" and "p \<noteq> []"
  shows "exit_code (main w f (Some p)) =
           (case s_raised (save_to_file w d p) of None \<Rightarrow> 0 | Some e \<Rightarrow> 1)"
    and "uncaught (main w f (Some p)) = s_raised (save_to_file w d p)"
  using assms by (simp_all add: main_def main_save_def Let_def)

lemma mute_env_facts:
  "path_exists mute_env []" "read_text mute_env [] = Inr []"
  "html_parser mute_env [] = Inr sample_soup_rows"
  "write_error mute_env p = Some sample_error"
  "print_error mute_env (save_error_prefix @ ascii ''denied'') = Some encode_error"
  "print_error mute_env (processing_message []) = None"
  "print_error mute_env (save_ok_prefix @ ascii ''out.json'') = None"
  "print_all mute_env (summary_messages d) = (summary_messages d, None)"
  by (simp_all add: mute_env_def unwritable_env_def sample_env_def processing_message_def
        summary_messages_def save_error_prefix_def save_ok_prefix_def)

lemma mute_env_saves:
  "s_raised (save_to_file mute_env data (ascii ''out.json'')) = Some encode_error"
  "s_raised (save_to_file (mute_env\<lparr>write_error := (\<lambda>p. None)\<rparr>) data (ascii ''out.json''))
     = None"
proof -
  have "save_body mute_env data (ascii ''out.json'') = Inl sample_error"
    by (rule save_body_error) (rule mute_env_facts)
  then show "s_raised (save_to_file mute_env data (ascii ''out.json'')) = Some encode_error"
    by (simp add: save_to_file_def save_handler_def sample_error_def mute_env_facts)
  have "save_body (mute_env\<lparr>write_error := (\<lambda>p. None)\<rparr>) data (ascii ''out.json'')
      = Inr (ascii ''out.json'', Json_dump data)"
    by (simp add: save_body_def write_file_def not_json_samples)
  then show "s_raised (save_to_file (mute_env\<lparr>write_error := (\<lambda>p. None)\<rparr>) data
      (ascii ''out.json'')) = None"
    by (simp add: save_to_file_def mute_env_facts)
qed

text \<open>
  Claim C8, as stated, fails: the diagnostic of a failed write is printed inside the
  handler, and an exception raised by that \<open>print\<close> is not caught. Where the write fails
  and standard output cannot take its diagnostic, the exception leaves the save operation,
  nothing in \<open>main\<close> catches it and the run ends with status 1; the same run with a
  write that goes through ends with status 0.
\<close>

theorem write_error_exit_counterexample:
  "s_raised (save_to_file mute_env sample_data (ascii ''out.json'')) = Some encode_error \<and>
   exit_code (main mute_env [] (Some (ascii ''out.json''))) = 1 \<and>
   uncaught (main mute_env [] (Some (ascii ''out.json''))) = Some encode_error \<and>
   exit_code (main (mute_env\<lparr>write_error := (\<lambda>p. None)\<rparr>) [] (Some (ascii ''out.json''))) = 0"
proof -
  obtain r where x: "extract_house_sales_info mute_env [] = ([], Inr (Some r))"
    using extraction_succeeds [OF mute_env_facts(2) mute_env_facts(3)] by blast
  then have y: "extract_house_sales_info (mute_env\<lparr>write_error := (\<lambda>p. None)\<rparr>) []
      = ([], Inr (Some r))"
    by (simp only: extraction_write_free)
  have p: "ascii ''out.json'' \<noteq> []"
    by (rule ascii_not_empty)
  have q: "print_all (mute_env\<lparr>write_error := (\<lambda>p. None)\<rparr>) ls = print_all mute_env ls" for ls
    by (induction ls) (simp_all split: option.splits)
  have 1: "exit_code (main mute_env [] (Some (ascii ''out.json''))) = 1"
    and 2: "uncaught (main mute_env [] (Some (ascii ''out.json''))) = Some encode_error"
    using main_after_extraction [OF mute_env_facts(1) mute_env_facts(6) x mute_env_facts(8) p]
    by (simp_all add: mute_env_saves)
  have 3: "exit_code (main (mute_env\<lparr>write_error := (\<lambda>p. None)\<rparr>) []
      (Some (ascii ''out.json''))) = 0"
    using main_after_extraction [of "mute_env\<lparr>write_error := (\<lambda>p. None)\<rparr>" "[]" "[]" r
        "summary_messages r" "ascii ''out.json''"] y p
    by (simp add: mute_env_facts mute_env_saves q)
  from mute_env_saves(1) 1 2 3 show ?thesis by (intro conjI)
qed

text \<open>
  Claim C8, amended. When writing the chosen path raises, the save operation prints the
  diagnostic with the message of the error and writes no file; if the diagnostic can be
  printed it returns normally, and if printing it raises, that exception leaves the save
  operation. In a run in which no \<open>print\<close> raises, the exit status does not depend on
  whether writing fails: it is 0 as soon as the input exists and the extraction returned a
  result.
\<close>

theorem write_errors_caught:
  "(write_error w (save_path output_file) = Some e \<and>
    print_error w (save_error_prefix @ str_of_error e) = None \<longrightarrow>
      save_to_file w data output_file =
        \<lparr> s_printed = [save_error_prefix @ str_of_error e], s_written = None,
          s_raised = None \<rparr>) \<and>
   (write_error w (save_path output_file) = Some e \<and>
    print_error w (save_error_prefix @ str_of_error e) = Some e' \<longrightarrow>
      save_to_file w data output_file =
        \<lparr> s_printed = [], s_written = None, s_raised = Some e' \<rparr>) \<and>
   ((\<forall>line. print_error w line = None) \<longrightarrow>
      exit_code (main (w\<lparr>write_error := we\<rparr>) html_file output) =
        exit_code (main w html_file output)) \<and>
   ((\<forall>line. print_error w line = None) \<and> path_exists w html_file \<and>
    extract_house_sales_info w html_file = (ls, Inr (Some d)) \<longrightarrow>
      exit_code (main w html_file output) = 0)"
proof -
  have a: "write_error w (save_path output_file) = Some e \<and>
    print_error w (save_error_prefix @ str_of_error e) = None \<longrightarrow>
      save_to_file w data output_file =
        \<lparr> s_printed = [save_error_prefix @ str_of_error e], s_written = None,
          s_raised = None \<rparr>"
    by (simp add: save_to_file_def save_handler_def save_body_error)
  have b: "write_error w (save_path output_file) = Some e \<and>
    print_error w (save_error_prefix @ str_of_error e) = Some e' \<longrightarrow>
      save_to_file w data output_file =
        \<lparr> s_printed = [], s_written = None, s_raised = Some e' \<rparr>"
    by (simp add: save_to_file_def save_handler_def save_body_error)
  have c: "(\<forall>line. print_error w line = None) \<longrightarrow>
      exit_code (main (w\<lparr>write_error := we\<rparr>) html_file output) =
        exit_code (main w html_file output)"
  proof
    assume q: "\<forall>line. print_error w line = None"
    then have "\<forall>line. print_error (w\<lparr>write_error := we\<rparr>) line = None" by simp
    from main_exit_quiet [OF this] main_exit_quiet [OF q]
    show "exit_code (main (w\<lparr>write_error := we\<rparr>) html_file output) =
        exit_code (main w html_file output)"
      by (simp add: extraction_write_free)
  qed
  have d: "(\<forall>line. print_error w line = None) \<and> path_exists w html_file \<and>
    extract_house_sales_info w html_file = (ls, Inr (Some d)) \<longrightarrow>
      exit_code (main w html_file output) = 0"
    by (simp add: main_exit_quiet)
  show ?thesis by (intro conjI a b c d)
qed

theorem write_errors_caught_witness:
  "save_to_file unwritable_env sample_data (ascii ''out.json'')
     = \<lparr> s_printed = [save_error_prefix @ ascii ''denied''], s_written = None,
         s_raised = None \<rparr> \<and>
   save_to_file mute_env sample_data (ascii ''out.json'')
     = \<lparr> s_printed = [], s_written = None, s_raised = Some encode_error \<rparr> \<and>
   exit_code (main unwritable_env [] (Some (ascii ''out.json''))) = 0"
proof -
  have p: "save_path (ascii ''out.json'') = ascii ''out.json''"
    by (simp add: save_path_def not_json_samples)
  have quiet: "\<forall>line. print_error unwritable_env line = None"
    by (simp add: unwritable_env_def sample_env_def)
  have 1: "save_to_file unwritable_env sample_data (ascii ''out.json'')
      = \<lparr> s_printed = [save_error_prefix @ str_of_error sample_error], s_written = None,
          s_raised = None \<rparr>"
    using write_errors_caught [where w = unwritable_env and output_file = "ascii ''out.json''"
        and e = sample_error and data = sample_data, THEN conjunct1] quiet
    by (simp add: p unwritable_env_def)
  have 2: "save_to_file mute_env sample_data (ascii ''out.json'')
      = \<lparr> s_printed = [], s_written = None, s_raised = Some encode_error \<rparr>"
    using write_errors_caught [where w = mute_env and output_file = "ascii ''out.json''"
        and e = sample_error and e' = encode_error and data = sample_data,
        THEN conjunct2, THEN conjunct1]
    by (simp add: p mute_env_facts sample_error_def)
  have "read_text unwritable_env [] = Inr []"
    and "html_parser unwritable_env [] = Inr sample_soup_rows"
    by (simp_all add: unwritable_env_def sample_env_def)
  then obtain r where x: "extract_house_sales_info unwritable_env [] = ([], Inr (Some r))"
    using extraction_succeeds by blast
  have e: "path_exists unwritable_env []"
    by (simp add: unwritable_env_def sample_env_def)
  have 3: "exit_code (main unwritable_env [] (Some (ascii ''out.json''))) = 0"
    using write_errors_caught [where w = unwritable_env and html_file = "[]" and ls = "[]"
        and d = r, THEN conjunct2, THEN conjunct2, THEN conjunct2] quiet e x by blast
  from 1 2 3 show ?thesis by (simp add: sample_error_def)
qed

end
